theory Spec2Isabelle
  imports Main
begin

section \<open>Python strings and dictionaries\<close>

text \<open>
  A Python \<open>str\<close> is a sequence of Unicode code points, so it is modelled as a list of
  natural numbers: the currency signs of the fee patterns (U+00A3, U+20AC, U+20B9) do
  not fit into one 8-bit \<open>char\<close>. String literals of the source are written with
  \<open>str\<close>. The records the scraper passes around are Python dictionaries with literal
  keys; they are maps from the key to the value.
\<close>

type_synonym ustr = "nat list"

definition str :: "string \<Rightarrow> ustr" where
  "str cs = map of_char cs"

type_synonym pdict = "string \<rightharpoonup> ustr"

text \<open>\<open>keyword in text\<close>: the keyword occurs as a contiguous run of the text.\<close>

fun contains :: "ustr \<Rightarrow> ustr \<Rightarrow> bool" where
  "contains k [] = (k = [])"
| "contains k (c # cs) = (if take (length k) (c # cs) = k then True else contains k cs)"

text \<open>
  \<open>str.lower()\<close>. The case tables of CPython are not part of this repository: the model
  converts the ASCII letters and leaves every other code point as it is.
\<close>

definition lower_cp :: "nat \<Rightarrow> nat" where
  "lower_cp c = (if 65 \<le> c \<and> c \<le> 90 then c + 32 else c)"

definition upper_cp :: "nat \<Rightarrow> nat" where
  "upper_cp c = (if 97 \<le> c \<and> c \<le> 122 then c - 32 else c)"

definition lower :: "ustr \<Rightarrow> ustr" where
  "lower s = map lower_cp s"

text \<open>The decimal numeral an f-string writes for a non-negative integer.\<close>

fun digits_of :: "nat \<Rightarrow> ustr" where
  "digits_of n = (if n < 10 then [48 + n] else digits_of (n div 10) @ [48 + n mod 10])"

declare digits_of.simps [simp del]

definition NA :: ustr where
  "NA = str ''Not Available''"

section \<open>Discipline classifier\<close>

text \<open>
  \<open>discipline_map\<close> is the dictionary literal of \<open>guess_discipline\<close>; a Python dictionary
  iterates in insertion order, so the table is the list of its items in source order.
\<close>

definition discipline_map :: "(ustr \<times> ustr) list" where
  "discipline_map =
    [(str ''computer'', str ''Computer Science''), (str ''engineering'', str ''Engineering''),
     (str ''law'', str ''Law''), (str ''medicine'', str ''Medicine''), (str ''medic'', str ''Medicine''),
     (str ''business'', str ''Business''), (str ''management'', str ''Management''),
     (str ''mba'', str ''Management''),
     (str ''pharm'', str ''Pharmacy''), (str ''nurs'', str ''Nursing''),
     (str ''architect'', str ''Architecture''),
     (str ''math'', str ''Mathematics''), (str ''econom'', str ''Economics''),
     (str ''dent'', str ''Dentistry''),
     (str ''communi'', str ''Communication''), (str ''history'', str ''History''),
     (str ''archaeol'', str ''Archaeology''),
     (str ''data science'', str ''Data Science''), (str ''arts'', str ''Arts''),
     (str ''science'', str ''Sciences''),
     (str ''hotel'', str ''Hotel Management''), (str ''commerce'', str ''Commerce'')]"

text \<open>The \<open>for keyword, disc in discipline_map.items()\<close> loop with its early return.\<close>

fun discipline_loop :: "(ustr \<times> ustr) list \<Rightarrow> ustr \<Rightarrow> ustr" where
  "discipline_loop [] name_lower = str ''General''"
| "discipline_loop ((keyword, disc) # rest) name_lower =
     (if contains keyword name_lower then disc else discipline_loop rest name_lower)"

definition guess_discipline :: "ustr \<Rightarrow> ustr" where
  "guess_discipline name = discipline_loop discipline_map (lower name)"

section \<open>Padding a batch to five courses\<close>

definition placeholder :: "ustr \<Rightarrow> nat \<Rightarrow> pdict" where
  "placeholder label n =
     [''Course Name'' \<mapsto> label @ str '' Course '' @ digits_of n,
      ''Level'' \<mapsto> NA,
      ''Discipline'' \<mapsto> str ''General'',
      ''Duration'' \<mapsto> NA,
      ''Fees'' \<mapsto> NA,
      ''Eligibility'' \<mapsto> NA]"

text \<open>The \<open>while len(courses) < 5\<close> loop of \<open>pad_courses\<close>.\<close>

function pad_loop :: "pdict list \<Rightarrow> ustr \<Rightarrow> pdict list" where
  "pad_loop courses label =
     (if length courses < 5
      then pad_loop (courses @ [placeholder label (length courses + 1)]) label
      else courses)"
  by pat_completeness auto
termination
  by (relation "measure (\<lambda>(courses, label). 5 - length courses)") auto

declare pad_loop.simps [simp del]

definition pad_courses :: "pdict list \<Rightarrow> ustr \<Rightarrow> pdict list" where
  "pad_courses courses label = take 5 (pad_loop courses label)"

section \<open>Text helpers of the standard library\<close>

text \<open>
  \<open>str.isspace\<close>, which decides what \<open>str.strip()\<close> removes and what \<open>\s\<close> matches in
  a \<open>str\<close> pattern: the white-space code points of CPython.
\<close>

definition is_space :: "nat \<Rightarrow> bool" where
  "is_space c = ((9 \<le> c \<and> c \<le> 13) \<or> (28 \<le> c \<and> c \<le> 32) \<or> c = 133 \<or> c = 160
     \<or> c = 5760 \<or> (8192 \<le> c \<and> c \<le> 8202) \<or> c = 8232 \<or> c = 8233 \<or> c = 8239
     \<or> c = 8287 \<or> c = 12288)"

text \<open>
  Digits, letters and word characters. As for \<open>lower\<close>, the model knows the ASCII range:
  a code point beyond it counts as no digit, no letter and no word character.
\<close>

definition is_digit :: "nat \<Rightarrow> bool" where
  "is_digit c = (48 \<le> c \<and> c \<le> 57)"

definition is_cased :: "nat \<Rightarrow> bool" where
  "is_cased c = ((65 \<le> c \<and> c \<le> 90) \<or> (97 \<le> c \<and> c \<le> 122))"

definition is_word :: "nat \<Rightarrow> bool" where
  "is_word c = (is_digit c \<or> is_cased c \<or> c = 95)"

definition strip :: "ustr \<Rightarrow> ustr" where
  "strip s = rev (dropWhile is_space (rev (dropWhile is_space s)))"

text \<open>
  \<open>str.title()\<close>: a character that follows a cased character is lowered, any other is
  raised; the flag is whether the character just read is cased.
\<close>

fun title_from :: "bool \<Rightarrow> ustr \<Rightarrow> ustr" where
  "title_from previous_is_cased [] = []"
| "title_from previous_is_cased (c # cs) =
     (if previous_is_cased then lower_cp c else upper_cp c) # title_from (is_cased c) cs"

definition title :: "ustr \<Rightarrow> ustr" where
  "title s = title_from False s"

definition startswith :: "ustr \<Rightarrow> ustr \<Rightarrow> bool" where
  "startswith s p = (take (length p) s = p)"

section \<open>Regular expressions\<close>

text \<open>
  The patterns of \<open>extract_details_from_page\<close> are built from literals, character
  classes, concatenation, alternation, \<open>?\<close> on a group, greedy counted repetition of a
  single character class, and \<open>\b\<close>. Every pattern is compiled with \<open>re.IGNORECASE\<close>, so
  a literal and a range match either case of a letter.
\<close>

datatype atom = Lit nat | Range nat nat | Digit | Space | Word

datatype cls = In "atom list" | NotIn "atom list"

datatype rx = Eps | C cls | Cat rx rx | Alt rx rx | Opt rx | Rep cls nat "nat option" | WordB

fun atom_match :: "atom \<Rightarrow> nat \<Rightarrow> bool" where
  "atom_match (Lit l) c = (lower_cp c = lower_cp l)"
| "atom_match (Range lo hi) c =
     ((lo \<le> c \<and> c \<le> hi) \<or> (lo \<le> lower_cp c \<and> lower_cp c \<le> hi)
       \<or> (lo \<le> upper_cp c \<and> upper_cp c \<le> hi))"
| "atom_match Digit c = is_digit c"
| "atom_match Space c = is_space c"
| "atom_match Word c = is_word c"

fun cls_match :: "cls \<Rightarrow> nat \<Rightarrow> bool" where
  "cls_match (In as) c = list_ex (\<lambda>a. atom_match a c) as"
| "cls_match (NotIn as) c = (\<not> list_ex (\<lambda>a. atom_match a c) as)"

text \<open>\<open>\b\<close> at position \<open>i\<close>: exactly one of the characters around it is a word character.\<close>

definition word_at :: "ustr \<Rightarrow> nat \<Rightarrow> bool" where
  "word_at t i = (if i < length t then is_word (t ! i) else False)"

definition boundary :: "ustr \<Rightarrow> nat \<Rightarrow> bool" where
  "boundary t i = ((if i = 0 then False else word_at t (i - 1)) \<noteq> word_at t i)"

text \<open>
  A greedy repetition of a class between \<open>lo\<close> and \<open>hi\<close> times from position \<open>i\<close>: the
  longest run is tried first, then each shorter one down to \<open>lo\<close>.
\<close>

definition rep_ends :: "cls \<Rightarrow> nat \<Rightarrow> nat option \<Rightarrow> ustr \<Rightarrow> nat \<Rightarrow> nat list" where
  "rep_ends c lo hi t i =
     (let run = length (takeWhile (cls_match c) (drop i t));
          n = (case hi of None \<Rightarrow> run | Some h \<Rightarrow> min h run)
      in map (\<lambda>k. i + k) (rev [lo ..< Suc n]))"

text \<open>
  \<open>rmatch r t i\<close> lists the positions where a match of \<open>r\<close> that starts at \<open>i\<close> can end, in
  the order in which the backtracking matcher of \<open>re\<close> tries them.
\<close>

primrec rmatch :: "rx \<Rightarrow> ustr \<Rightarrow> nat \<Rightarrow> nat list" where
  "rmatch Eps t i = [i]"
| "rmatch (C c) t i = (if i < length t then (if cls_match c (t ! i) then [Suc i] else []) else [])"
| "rmatch (Cat a b) t i = concat (map (rmatch b t) (rmatch a t i))"
| "rmatch (Alt a b) t i = rmatch a t i @ rmatch b t i"
| "rmatch (Opt a) t i = rmatch a t i @ [i]"
| "rmatch (Rep c lo hi) t i = rep_ends c lo hi t i"
| "rmatch WordB t i = (if boundary t i then [i] else [])"

text \<open>
  Each pattern of the source has one capturing group, at the top level of a
  concatenation: what comes before the group, the group, what comes after it.
\<close>

record pattern =
  pre :: rx
  grp :: rx
  post :: rx

definition matches_at :: "pattern \<Rightarrow> ustr \<Rightarrow> nat \<Rightarrow> (nat \<times> nat) list" where
  "matches_at p t i =
     concat (map (\<lambda>j. concat (map (\<lambda>k. if rmatch (post p) t k = [] then [] else [(j, k)])
                                     (rmatch (grp p) t j)))
                 (rmatch (pre p) t i))"

text \<open>\<open>pat.search(text)\<close> followed by \<open>m.group(1)\<close>: the leftmost start, then the first way.\<close>

fun search_from :: "pattern \<Rightarrow> ustr \<Rightarrow> nat list \<Rightarrow> ustr option" where
  "search_from p t [] = None"
| "search_from p t (i # starts) =
     (case matches_at p t i of
        [] \<Rightarrow> search_from p t starts
      | (j, k) # _ \<Rightarrow> Some (take (k - j) (drop j t)))"

definition search :: "pattern \<Rightarrow> ustr \<Rightarrow> ustr option" where
  "search p t = search_from p t [0 ..< Suc (length t)]"

text \<open>Pattern syntax: a literal word, a sequence, a choice, one character.\<close>

definition lit :: "string \<Rightarrow> rx" where
  "lit cs = foldr (\<lambda>c r. Cat (C (In [Lit (of_char c)])) r) cs Eps"

definition seq :: "rx list \<Rightarrow> rx" where
  "seq rs = foldr Cat rs Eps"

fun alts :: "rx list \<Rightarrow> rx" where
  "alts [] = Rep (In []) 1 None"
| "alts [r] = r"
| "alts (r # rs) = Alt r (alts rs)"

definition ch :: "string \<Rightarrow> atom list" where
  "ch cs = map (\<lambda>c. Lit (of_char c)) cs"

definition star :: "cls \<Rightarrow> rx" where
  "star c = Rep c 0 None"

definition plus :: "cls \<Rightarrow> rx" where
  "plus c = Rep c 1 None"

section \<open>Parsed pages and the web\<close>

text \<open>
  A parsed page is known to the scraper only through the BeautifulSoup queries it makes,
  so a page is the record of what those queries return. \<open>get_soup\<close> never raises: a
  failed fetch is \<open>None\<close>. The web is the function from a URL and the \<open>verify\<close> flag to
  the page served.
\<close>

record anchor =
  href :: "ustr option"    \<comment> \<open>the \<open>href\<close> attribute, if the link has one\<close>
  link_text :: ustr         \<comment> \<open>\<open>get_text(strip=True)\<close>\<close>

record infobox_row =
  th :: "ustr option"      \<comment> \<open>\<open>row.find('th').text\<close>\<close>
  td :: "ustr option"      \<comment> \<open>\<open>row.find('td').text\<close>\<close>
  td_href :: "ustr option" \<comment> \<open>\<open>href\<close> of the first link inside the cell\<close>

record soup =
  body_text :: "ustr option"
    \<comment> \<open>\<open>soup.find('body').get_text(' ', strip=True)\<close>, \<open>None\<close> without a body\<close>
  find_text :: "string \<Rightarrow> ustr option"
    \<comment> \<open>\<open>soup.find(tag).get_text(strip=True)\<close>, \<open>None\<close> without such a tag\<close>
  select :: "ustr \<Rightarrow> anchor list"
    \<comment> \<open>\<open>soup.select(selector)\<close>\<close>
  find_all_a :: "anchor list"
    \<comment> \<open>\<open>soup.find_all('a', href=True)\<close>\<close>
  find_all_text :: "string list \<Rightarrow> ustr list"
    \<comment> \<open>\<open>get_text(strip=True)\<close> of every tag of \<open>soup.find_all(names)\<close>\<close>
  first_heading :: "ustr option"
    \<comment> \<open>\<open>soup.find('h1', {'id': 'firstHeading'}).text\<close>\<close>
  infobox :: "infobox_row list option"
    \<comment> \<open>the rows of \<open>soup.find('table', {'class': 'infobox'})\<close>\<close>

type_synonym web = "ustr \<Rightarrow> bool \<Rightarrow> soup option"

definition get_soup :: "web \<Rightarrow> ustr \<Rightarrow> bool \<Rightarrow> soup option" where
  "get_soup w url verify = w url verify"

section \<open>Field extractor\<close>

definition digit :: cls where "digit = In [Digit]"
definition space :: cls where "space = In [Space]"
definition not_dot :: cls where "not_dot = NotIn (ch ''.'')"
definition colon_space :: cls where "colon_space = In (ch '':'' @ [Space])"
definition hyphen_space :: cls where "hyphen_space = In (ch ''- '')"

text \<open>\<open>\d+(?:\.\d+)?\<close>, \<open>years?|months?\<close> and the currency amount shared by the patterns.\<close>

definition decimal :: rx where
  "decimal = seq [plus digit, Opt (seq [lit ''.'', plus digit])]"

definition years_months :: rx where
  "years_months = alts [seq [lit ''year'', Opt (lit ''s'')], seq [lit ''month'', Opt (lit ''s'')]]"

definition amount :: rx where
  "amount = seq [C (In [Lit 163, Lit 36, Lit 8364, Lit 8377]), star space,
                 Rep (In [Digit, Lit 44]) 3 None, Opt (seq [lit ''.'', plus digit])]"

definition dur_patterns :: "pattern list" where
  "dur_patterns =
    [\<lparr>pre = seq [lit ''duration'', star colon_space],
      grp = seq [decimal, star space,
                 alts [seq [lit ''year'', Opt (lit ''s'')], seq [lit ''month'', Opt (lit ''s'')],
                       seq [lit ''semester'', Opt (lit ''s'')]]],
      post = Eps\<rparr>,
     \<lparr>pre = Eps,
      grp = seq [decimal, star space, years_months],
      post = seq [star space,
                  alts [seq [lit ''full'', Opt (C hyphen_space), lit ''time''],
                        seq [lit ''part'', Opt (C hyphen_space), lit ''time''],
                        lit ''programme'', lit ''program'', lit ''course'']]\<rparr>,
     \<lparr>pre = Eps,
      grp = seq [plus digit, star space, years_months],
      post = C space\<rparr>]"

definition fee_patterns :: "pattern list" where
  "fee_patterns =
    [\<lparr>pre = seq [alts [lit ''tuition'', lit ''fee'', lit ''cost''], Rep not_dot 0 (Some 50)],
      grp = amount,
      post = Eps\<rparr>,
     \<lparr>pre = Eps,
      grp = amount,
      post = seq [star space,
                  alts [seq [lit ''per'', star space,
                             alts [lit ''annum'', lit ''year'', lit ''semester'']],
                        lit ''tuition'', lit ''fee'']]\<rparr>,
     \<lparr>pre = Eps, grp = amount, post = Eps\<rparr>]"

definition level_pat :: pattern where
  "level_pat =
    \<lparr>pre = WordB,
     grp = alts [seq [lit ''bachelor'', Opt (lit [CHR 0x27]), Opt (lit ''s'')],
                 seq [lit ''master'', Opt (lit [CHR 0x27]), Opt (lit ''s'')],
                 lit ''undergraduate'', lit ''postgraduate'', lit ''doctoral'',
                 seq [lit ''ph'', Opt (lit ''.''), lit ''d''],
                 lit ''diploma'',
                 seq [lit ''professional'', star space, lit ''graduate''],
                 seq [lit ''juris'', star space, lit ''doctor''],
                 seq [lit ''doctor'', star space, lit ''of'', star space, lit ''medicine'']],
     post = WordB\<rparr>"

definition elig_patterns :: "pattern list" where
  "elig_patterns =
    [\<lparr>pre = seq [alts [seq [lit ''eligib'', plus (In [Word])],
                       seq [lit ''entry'', star space, lit ''requirement''],
                       seq [lit ''admission'', star space, lit ''requirement'']],
                 star colon_space],
      grp = Rep not_dot 10 (Some 120),
      post = Eps\<rparr>,
     \<lparr>pre = seq [alts [seq [lit ''applicant'', Opt (lit ''s''), star space,
                            alts [lit ''must'', lit ''should'', lit ''need'']],
                       seq [lit ''minimum'', star space, lit ''qualification'']],
                 star colon_space],
      grp = Rep not_dot 10 (Some 120),
      post = Eps\<rparr>,
     \<lparr>pre = Eps,
      grp = seq [lit ''A'', Opt (C (In (ch ''*''))), Rep (In [Range 65 90]) 2 (Some 3), star space,
                 alts [seq [lit ''at'', star space, lit ''A'', Opt (C hyphen_space), lit ''Level''],
                       lit ''including''],
                 Rep not_dot 5 (Some 80)],
      post = Eps\<rparr>,
     \<lparr>pre = Eps,
      grp = seq [lit ''10+2'', star space, Rep not_dot 5 (Some 80)],
      post = Eps\<rparr>]"

text \<open>\<open>for pat in patterns: m = pat.search(full_text); if m: ...; break\<close>.\<close>

fun first_search :: "pattern list \<Rightarrow> ustr \<Rightarrow> ustr option" where
  "first_search [] full_text = None"
| "first_search (pat # pats) full_text =
     (case search pat full_text of
        None \<Rightarrow> first_search pats full_text
      | Some g \<Rightarrow> Some g)"

text \<open>\<open>results[key] = value\<close> when there was a match, nothing otherwise.\<close>

definition put :: "string \<Rightarrow> ustr option \<Rightarrow> pdict \<Rightarrow> pdict" where
  "put key found results = (case found of None \<Rightarrow> results | Some v \<Rightarrow> results(key \<mapsto> v))"

definition extract_details_from_page :: "soup option \<Rightarrow> pdict" where
  "extract_details_from_page sp =
     (case sp of
        None \<Rightarrow> Map.empty
      | Some page \<Rightarrow>
          (case body_text page of
             None \<Rightarrow> Map.empty
           | Some full_text \<Rightarrow>
               put ''Eligibility''
                 (map_option (\<lambda>g. take 150 (strip g)) (first_search elig_patterns full_text))
               (put ''Level'' (map_option (\<lambda>g. title (strip g)) (search level_pat full_text))
               (put ''Fees'' (map_option strip (first_search fee_patterns full_text))
               (put ''Duration''
                  (map_option (\<lambda>g. title (strip g)) (first_search dur_patterns full_text))
                Map.empty)))))"

text \<open>\<open>text.replace('\n', ' ')\<close>.\<close>

definition replace_newlines :: "ustr \<Rightarrow> ustr" where
  "replace_newlines s = map (\<lambda>c. if c = 10 then 32 else c) s"

fun course_name_loop :: "soup \<Rightarrow> string list \<Rightarrow> ustr option" where
  "course_name_loop page [] = None"
| "course_name_loop page (tag # tags) =
     (case find_text page tag of
        None \<Rightarrow> course_name_loop page tags
      | Some el \<Rightarrow>
          (let text = replace_newlines el
           in if 5 < length text \<and> length text < 120 then Some text
              else course_name_loop page tags))"

definition extract_course_name :: "soup option \<Rightarrow> ustr option" where
  "extract_course_name sp =
     (case sp of None \<Rightarrow> None | Some page \<Rightarrow> course_name_loop page [''h1'', ''h2''])"

section \<open>Scraping one course page\<close>

text \<open>\<open>for key in [...]: if key in details: course[key] = details[key]\<close>.\<close>

fun copy_keys :: "string list \<Rightarrow> pdict \<Rightarrow> pdict \<Rightarrow> pdict" where
  "copy_keys [] details course = course"
| "copy_keys (key # keys) details course = copy_keys keys details (put key (details key) course)"

text \<open>
  \<open>course['Course Name']\<close> reads a key that the dictionary literal sets, so \<open>the\<close> stands
  for a subscript that cannot raise.
\<close>

definition scrape_course_page :: "web \<Rightarrow> ustr \<Rightarrow> ustr \<Rightarrow> bool \<Rightarrow> pdict" where
  "scrape_course_page w url fallback_name verify =
     (let sp = get_soup w url verify;
          course = [''Course Name'' \<mapsto> fallback_name,
                    ''Level'' \<mapsto> NA,
                    ''Discipline'' \<mapsto> NA,
                    ''Duration'' \<mapsto> NA,
                    ''Fees'' \<mapsto> NA,
                    ''Eligibility'' \<mapsto> NA]
      in case sp of
           None \<Rightarrow> course
         | Some page \<Rightarrow>
             (let page_name = extract_course_name sp;
                  course1 = (case page_name of
                               None \<Rightarrow> course
                             | Some n \<Rightarrow> if n = [] then course else course(''Course Name'' \<mapsto> n));
                  details = extract_details_from_page sp;
                  course2 = copy_keys [''Level'', ''Duration'', ''Fees'', ''Eligibility''] details course1
              in course2(''Discipline'' \<mapsto> guess_discipline (the (course2 ''Course Name'')))))"

section \<open>Link discovery\<close>

text \<open>
  \<open>urljoin\<close> of \<open>urllib.parse\<close> is a parameter. The loop over the selected links carries
  the courses collected so far and the set of URLs seen.
\<close>

fun discover_loop ::
  "(ustr \<Rightarrow> ustr \<Rightarrow> ustr) \<Rightarrow> web \<Rightarrow> ustr \<Rightarrow> bool \<Rightarrow> nat \<Rightarrow> anchor list
     \<Rightarrow> pdict list \<Rightarrow> ustr set \<Rightarrow> pdict list" where
  "discover_loop urljoin w base_url verify max_courses [] courses seen_urls = courses"
| "discover_loop urljoin w base_url verify max_courses (link # links) courses seen_urls =
     (if length courses \<ge> max_courses then courses
      else
        (let h = (case href link of None \<Rightarrow> [] | Some v \<Rightarrow> v);
             text = link_text link
         in if h = [] \<or> length text < 3
            then discover_loop urljoin w base_url verify max_courses links courses seen_urls
            else
              (let full_url = (if startswith h (str ''http'') then h else urljoin base_url h)
               in if full_url \<in> seen_urls
                  then discover_loop urljoin w base_url verify max_courses links courses seen_urls
                  else discover_loop urljoin w base_url verify max_courses links
                         (courses @ [scrape_course_page w full_url text verify])
                         (insert full_url seen_urls))))"

definition discover_and_scrape ::
  "(ustr \<Rightarrow> ustr \<Rightarrow> ustr) \<Rightarrow> web \<Rightarrow> ustr \<Rightarrow> ustr \<Rightarrow> ustr option \<Rightarrow> bool \<Rightarrow> nat
     \<Rightarrow> pdict list" where
  "discover_and_scrape urljoin w listing_url link_selector base_url verify max_courses =
     (let base = (case base_url of None \<Rightarrow> listing_url | Some b \<Rightarrow> b)
      in case get_soup w listing_url verify of
           None \<Rightarrow> []
         | Some page \<Rightarrow>
             discover_loop urljoin w base verify max_courses (select page link_selector) [] {})"

definition extract_courses_oxford :: "(ustr \<Rightarrow> ustr \<Rightarrow> ustr) \<Rightarrow> web \<Rightarrow> pdict list" where
  "extract_courses_oxford urljoin w =
     pad_courses
       (discover_and_scrape urljoin w
          (str ''https://www.ox.ac.uk/admissions/undergraduate/courses/course-listing'')
          (str ''a[href*='/courses/course-listing/']'')
          (Some (str ''https://www.ox.ac.uk''))
          True 5)
       (str ''Oxford'')"

section \<open>Text-scan adapters\<close>

definition any_in :: "string list \<Rightarrow> ustr \<Rightarrow> bool" where
  \<comment> \<open>\<open>any(kw in text for kw in kws)\<close>\<close>
  "any_in kws text = list_ex (\<lambda>kw. contains (str kw) text) kws"

subsection \<open>Jamia Millia Islamia\<close>

definition programme_keywords :: "string list" where
  "programme_keywords =
    [''b.tech'', ''m.tech'', ''b.sc'', ''m.sc'', ''mba'', ''bds'', ''b.arch'',
     ''diploma'', ''civil engineering'', ''mechanical engineering'',
     ''electrical engineering'', ''computer engineering'',
     ''electronics'', ''environmental'', ''aeronautic'']"

text \<open>The conditional expression assigned to \<open>level\<close> in \<open>extract_courses_jmi\<close>.\<close>

definition jmi_level :: "ustr \<Rightarrow> ustr" where
  "jmi_level text_lower =
     (if any_in [''m.tech'', ''m.sc'', ''master'', ''mba''] text_lower then str ''Master's''
      else if contains (str ''ph.d'') text_lower then str ''Doctoral''
      else if contains (str ''diploma'') text_lower then str ''Diploma''
      else str ''Bachelor's'')"

definition jmi_course :: "ustr \<Rightarrow> pdict" where
  "jmi_course text =
     (let text_lower = lower text
      in [''Course Name'' \<mapsto> text,
          ''Level'' \<mapsto> jmi_level text_lower,
          ''Discipline'' \<mapsto> guess_discipline text,
          ''Duration'' \<mapsto> (if contains (str ''b.tech'') text_lower
                                then str ''4 Years (8 Semesters)'' else NA),
          ''Fees'' \<mapsto> NA,
          ''Eligibility'' \<mapsto> NA])"

fun jmi_scan :: "ustr list \<Rightarrow> pdict list \<Rightarrow> ustr set \<Rightarrow> pdict list" where
  "jmi_scan [] courses seen = courses"
| "jmi_scan (text # tags) courses seen =
     (if length text < 8 \<or> length text > 100 then jmi_scan tags courses seen
      else if any_in programme_keywords (lower text)
      then (if text \<notin> seen
            then (if length (courses @ [jmi_course text]) \<ge> 5 then courses @ [jmi_course text]
                  else jmi_scan tags (courses @ [jmi_course text]) (insert text seen))
            else (if length courses \<ge> 5 then courses else jmi_scan tags courses seen))
      else jmi_scan tags courses seen)"

text \<open>\<open>if key in details and c[key] == 'Not Available': c[key] = details[key]\<close>.\<close>

fun fill_missing :: "string list \<Rightarrow> pdict \<Rightarrow> pdict \<Rightarrow> pdict" where
  "fill_missing [] details c = c"
| "fill_missing (key # keys) details c =
     fill_missing keys details
       (case details key of
          None \<Rightarrow> c
        | Some v \<Rightarrow> if the (c key) = NA then c(key \<mapsto> v) else c)"

fun jmi_extra :: "web \<Rightarrow> ustr list \<Rightarrow> pdict list \<Rightarrow> pdict list" where
  "jmi_extra w [] courses = courses"
| "jmi_extra w (url # urls) courses =
     (if length courses \<ge> 5 then courses
      else
        (let course = scrape_course_page w url (str ''JMI Programme'') False
         in if the (course ''Course Name'') \<noteq> str ''JMI Programme''
            then jmi_extra w urls (courses @ [course])
            else jmi_extra w urls courses))"

definition extract_courses_jmi :: "web \<Rightarrow> pdict list" where
  "extract_courses_jmi w =
     (let fet_soup = get_soup w (str ''https://www.jmi.ac.in/fet'') False;
          courses =
            (case fet_soup of
               None \<Rightarrow> []
             | Some page \<Rightarrow>
                 map (fill_missing [''Fees'', ''Eligibility''] (extract_details_from_page fet_soup))
                   (jmi_scan
                      (find_all_text page
                         [''li'', ''h2'', ''h3'', ''h4'', ''h5'', ''h6'', ''p'', ''strong'', ''b''])
                      [] {}));
          extra_urls = [str ''https://www.jmi.ac.in/fdn'', str ''https://www.jmi.ac.in/fae'',
                        str ''https://www.jmi.ac.in/ajkmcrc'']
      in pad_courses (jmi_extra w extra_urls courses) (str ''JMI''))"

subsection \<open>Jamia Hamdard\<close>

record school_link =
  school_url :: ustr
  school_name :: ustr

fun collect_schools :: "anchor list \<Rightarrow> school_link list \<Rightarrow> ustr set \<Rightarrow> school_link list" where
  "collect_schools [] school_links seen_hrefs = school_links"
| "collect_schools (a # as) school_links seen_hrefs =
     (let h = (case href a of None \<Rightarrow> [] | Some v \<Rightarrow> v);
          text = link_text a;
          href_lower = lower h
      in if (contains (str ''school-of'') href_lower \<or> contains (str ''institute'') href_lower)
            \<and> contains (str ''jamiahamdard.ac.in'') href_lower
         then (if h \<notin> seen_hrefs \<and> length text > 5
               then collect_schools as (school_links @ [\<lparr>school_url = h, school_name = text\<rparr>])
                      (insert h seen_hrefs)
               else collect_schools as school_links seen_hrefs)
         else collect_schools as school_links seen_hrefs)"

definition course_keywords :: "string list" where
  "course_keywords =
    [''b.pharm'', ''d.pharm'', ''b.tech'', ''m.tech'', ''mba'', ''bba'', ''b.com'',
     ''b.sc'', ''m.sc'', ''ba.ll.b'', ''ll.m'', ''ph.d'', ''bachelor'', ''master'',
     ''diploma'', ''nursing'', ''hotel management'', ''bms'']"

definition skip_keywords :: "string list" where
  "skip_keywords =
    [''to offer'', ''to provide'', ''to develop'', ''to use'',
     ''ambassador'', ''research'', ''vision'', ''mission'']"

text \<open>The conditional expression assigned to \<open>level\<close> in \<open>extract_courses_jamia_hamdard\<close>.\<close>

definition hamdard_level :: "ustr \<Rightarrow> ustr" where
  "hamdard_level text_lower =
     (if any_in [''m.tech'', ''m.sc'', ''master'', ''mba'', ''ll.m''] text_lower then str ''Master's''
      else if contains (str ''ph.d'') text_lower then str ''Doctoral''
      else str ''Bachelor's'')"

definition get_default :: "pdict \<Rightarrow> string \<Rightarrow> ustr \<Rightarrow> ustr" where
  \<comment> \<open>\<open>d.get(key, default)\<close>\<close>
  "get_default d key dflt = (case d key of None \<Rightarrow> dflt | Some v \<Rightarrow> v)"

definition hamdard_course :: "pdict \<Rightarrow> ustr \<Rightarrow> pdict" where
  "hamdard_course page_details text =
     [''Course Name'' \<mapsto> text,
      ''Level'' \<mapsto> hamdard_level (lower text),
      ''Discipline'' \<mapsto> guess_discipline text,
      ''Duration'' \<mapsto> get_default page_details ''Duration'' NA,
      ''Fees'' \<mapsto> get_default page_details ''Fees'' NA,
      ''Eligibility'' \<mapsto> get_default page_details ''Eligibility'' NA]"

fun hamdard_scan :: "pdict \<Rightarrow> ustr list \<Rightarrow> pdict list \<Rightarrow> pdict list" where
  "hamdard_scan page_details [] courses = courses"
| "hamdard_scan page_details (text # tags) courses =
     (if length courses \<ge> 5 then courses
      else if 5 < length text \<and> length text < 80 \<and> any_in course_keywords (lower text)
      then (if any_in skip_keywords (lower text) then hamdard_scan page_details tags courses
            else if \<not> list_ex (\<lambda>c. the (c ''Course Name'') = text) courses
            then hamdard_scan page_details tags (courses @ [hamdard_course page_details text])
            else hamdard_scan page_details tags courses)
      else hamdard_scan page_details tags courses)"

fun hamdard_schools :: "web \<Rightarrow> school_link list \<Rightarrow> pdict list \<Rightarrow> pdict list" where
  "hamdard_schools w [] courses = courses"
| "hamdard_schools w (school # schools) courses =
     (if length courses \<ge> 5 then courses
      else
        (case get_soup w (school_url school) False of
           None \<Rightarrow> hamdard_schools w schools courses
         | Some page \<Rightarrow>
             hamdard_schools w schools
               (hamdard_scan (extract_details_from_page (Some page))
                  (find_all_text page [''li'', ''h3'', ''h4'', ''h5'', ''h6'', ''strong'', ''b''])
                  courses)))"

definition extract_courses_jamia_hamdard :: "web \<Rightarrow> pdict list" where
  "extract_courses_jamia_hamdard w =
     (let schools_soup = get_soup w (str ''https://www.jamiahamdard.ac.in/new-school313'') False;
          school_links =
            (case schools_soup of
               None \<Rightarrow> []
             | Some page \<Rightarrow> collect_schools (find_all_a page) [] {})
      in pad_courses (hamdard_schools w school_links []) (str ''Jamia Hamdard''))"

section \<open>University info resolver\<close>

text \<open>
  \<open>s.split(',')\<close>: the pieces between the commas. The result is never empty (an empty
  string splits into one empty piece), so \<open>parts[0]\<close> and \<open>parts[-1]\<close> exist.
\<close>

fun split_on :: "nat \<Rightarrow> ustr \<Rightarrow> ustr list" where
  "split_on sep [] = [[]]"
| "split_on sep (c # cs) =
     (if c = sep then [] # split_on sep cs
      else (case split_on sep cs of
              [] \<Rightarrow> [[c]]
            | piece # pieces \<Rightarrow> (c # piece) # pieces))"

definition location_parts :: "ustr \<Rightarrow> ustr list" where
  \<comment> \<open>\<open>[p.strip() for p in td.text.strip().split(',')]\<close>\<close>
  "location_parts td_text = map strip (split_on 44 (strip td_text))"

definition scan_row :: "infobox_row \<Rightarrow> pdict \<Rightarrow> pdict" where
  "scan_row row info =
     (case th row of
        None \<Rightarrow> info
      | Some th_text \<Rightarrow>
          (case td row of
             None \<Rightarrow> info
           | Some td_text \<Rightarrow>
               (let header = lower (strip th_text);
                    info1 =
                      (if contains (str ''location'') header \<or> contains (str ''city'') header
                       then (let parts = location_parts td_text;
                                 info_city = info(''City'' \<mapsto> hd parts)
                             in if length parts \<ge> 2 then info_city(''Country'' \<mapsto> last parts)
                                else info_city)
                       else info)
                in if contains (str ''website'') header
                   then info1(''Website'' \<mapsto> (case td_href row of
                                                  Some h \<Rightarrow> h
                                                | None \<Rightarrow> strip td_text))
                   else info1)))"

fun scan_infobox :: "infobox_row list \<Rightarrow> pdict \<Rightarrow> pdict" where
  "scan_infobox [] info = info"
| "scan_infobox (row # rows) info = scan_infobox rows (scan_row row info)"

definition fallbacks :: "(ustr \<times> ustr \<times> ustr) list" where
  "fallbacks =
    [(str ''Harvard'', str ''United States'', str ''Cambridge''),
     (str ''Oxford'', str ''United Kingdom'', str ''Oxford''),
     (str ''Cambridge'', str ''United Kingdom'', str ''Cambridge''),
     (str ''Islamia'', str ''India'', str ''New Delhi''),
     (str ''Hamdard'', str ''India'', str ''New Delhi'')]"

fun fallback_loop :: "(ustr \<times> ustr \<times> ustr) list \<Rightarrow> ustr \<Rightarrow> pdict \<Rightarrow> pdict" where
  "fallback_loop [] wiki_url info = info"
| "fallback_loop ((key, country, city) # rest) wiki_url info =
     (if contains key wiki_url then info(''Country'' \<mapsto> country, ''City'' \<mapsto> city)
      else fallback_loop rest wiki_url info)"

text \<open>
  \<open>fetch_wiki_university_info\<close> in its two stages: the record after the heading and the
  infobox have been read, and the fallback table applied to it.
\<close>

definition scan_page :: "soup \<Rightarrow> pdict" where
  "scan_page page =
     (let info = [''University Name'' \<mapsto> NA, ''Country'' \<mapsto> NA,
                  ''City'' \<mapsto> NA, ''Website'' \<mapsto> NA];
          info1 = (case first_heading page of
                     None \<Rightarrow> info
                   | Some t \<Rightarrow> info(''University Name'' \<mapsto> strip t))
      in case infobox page of
           None \<Rightarrow> info1
         | Some rows \<Rightarrow> scan_infobox rows info1)"

definition apply_fallbacks :: "ustr \<Rightarrow> pdict \<Rightarrow> pdict" where
  "apply_fallbacks wiki_url info =
     (if the (info ''Country'') = NA then fallback_loop fallbacks wiki_url info else info)"

definition fetch_wiki_university_info :: "web \<Rightarrow> ustr \<Rightarrow> pdict" where
  "fetch_wiki_university_info w wiki_url =
     (case get_soup w wiki_url True of
        None \<Rightarrow> Map.empty
      | Some page \<Rightarrow> apply_fallbacks wiki_url (scan_page page))"

text \<open>A row with both cells whose header names a location or a city.\<close>

definition location_row :: "infobox_row \<Rightarrow> bool" where
  "location_row row =
     (case th row of
        None \<Rightarrow> False
      | Some th_text \<Rightarrow>
          (case td row of
             None \<Rightarrow> False
           | Some td_text \<Rightarrow>
               contains (str ''location'') (lower (strip th_text))
                 \<or> contains (str ''city'') (lower (strip th_text))))"

section \<open>Merger\<close>

text \<open>
  A row of a table holds one cell for each column; an empty cell (NaN) is \<open>None\<close>. The
  Courses table has a \<open>university_id\<close> column of its own.
\<close>

type_synonym cell = "ustr option"

record uni_row =
  university_id :: cell
  university_name :: cell
  country :: cell
  city :: cell
  website :: cell

record course_row =
  course_id :: cell
  university_id :: cell
  course_name :: cell
  level :: cell
  discipline :: cell
  duration :: cell
  fees :: cell
  eligibility :: cell

text \<open>
  \<open>df.drop_duplicates(subset=key, keep='last')\<close>: a row is dropped when a later row has
  the same key; the rows kept stay in their order.
\<close>

fun drop_duplicates_last :: "('r \<Rightarrow> 'k) \<Rightarrow> 'r list \<Rightarrow> 'r list" where
  "drop_duplicates_last key [] = []"
| "drop_duplicates_last key (r # rs) =
     (if key r \<in> set (map key rs) then drop_duplicates_last key rs
      else r # drop_duplicates_last key rs)"

definition fillna :: "cell \<Rightarrow> cell" where
  "fillna c = (case c of None \<Rightarrow> Some NA | Some v \<Rightarrow> Some v)"

definition fillna_uni :: "uni_row \<Rightarrow> uni_row" where
  "fillna_uni r =
     \<lparr>uni_row.university_id = fillna (uni_row.university_id r),
      university_name = fillna (university_name r),
      country = fillna (country r), city = fillna (city r), website = fillna (website r)\<rparr>"

definition fillna_course :: "course_row \<Rightarrow> course_row" where
  "fillna_course r =
     \<lparr>course_id = fillna (course_id r),
      university_id = fillna (university_id r),
      course_name = fillna (course_name r), level = fillna (level r),
      discipline = fillna (discipline r), duration = fillna (duration r),
      fees = fillna (fees r), eligibility = fillna (eligibility r)\<rparr>"

text \<open>
  The merge block of \<open>main\<close>, step by step. \<open>existing\<close> is the content of the output
  file when the file exists and can be read, \<open>None\<close> otherwise: the new rows come after
  the rows read. The result of \<open>merge_and_persist\<close> is the pair of tables written.
\<close>

definition concat_tables ::
  "(uni_row list \<times> course_row list) option \<Rightarrow> uni_row list \<Rightarrow> course_row list
     \<Rightarrow> uni_row list \<times> course_row list" where
  "concat_tables existing df_uni_new df_courses_new =
     (case existing of
        None \<Rightarrow> (df_uni_new, df_courses_new)
      | Some (df_uni_existing, df_courses_existing) \<Rightarrow>
          (df_uni_existing @ df_uni_new, df_courses_existing @ df_courses_new))"

definition course_key :: "course_row \<Rightarrow> cell \<times> cell" where
  \<comment> \<open>\<open>subset=['course_name', 'university_id']\<close>\<close>
  "course_key r = (course_name r, university_id r)"

definition deduplicate :: "uni_row list \<times> course_row list \<Rightarrow> uni_row list \<times> course_row list" where
  "deduplicate t =
     (drop_duplicates_last university_name (fst t), drop_duplicates_last course_key (snd t))"

definition fill_tables :: "uni_row list \<times> course_row list \<Rightarrow> uni_row list \<times> course_row list" where
  "fill_tables t = (map fillna_uni (fst t), map fillna_course (snd t))"

definition merge_and_persist ::
  "(uni_row list \<times> course_row list) option \<Rightarrow> uni_row list \<Rightarrow> course_row list
     \<Rightarrow> uni_row list \<times> course_row list" where
  "merge_and_persist existing df_uni_new df_courses_new =
     fill_tables (deduplicate (concat_tables existing df_uni_new df_courses_new))"

text \<open>The relational check of \<open>verify_data\<close>: no course row with an unknown university.\<close>

definition invalid_relations :: "uni_row list \<Rightarrow> course_row list \<Rightarrow> course_row list" where
  "invalid_relations df_uni df_courses =
     filter (\<lambda>c. university_id c \<notin> set (map uni_row.university_id df_uni)) df_courses"

text \<open>The rows \<open>main\<close> builds from a resolved university and from a scraped course.\<close>

definition university_record :: "ustr \<Rightarrow> pdict \<Rightarrow> uni_row" where
  "university_record uni_id uni_info =
     \<lparr>uni_row.university_id = Some uni_id,
      university_name = Some (get_default uni_info ''University Name'' NA),
      country = Some (get_default uni_info ''Country'' NA),
      city = Some (get_default uni_info ''City'' NA),
      website = Some (get_default uni_info ''Website'' NA)\<rparr>"

definition course_record :: "ustr \<Rightarrow> ustr \<Rightarrow> pdict \<Rightarrow> course_row" where
  "course_record cid uni_id c =
     \<lparr>course_id = Some cid,
      university_id = Some uni_id,
      course_name = Some (get_default c ''Course Name'' NA),
      level = Some (get_default c ''Level'' NA),
      discipline = Some (get_default c ''Discipline'' NA),
      duration = Some (get_default c ''Duration'' NA),
      fees = Some (get_default c ''Fees'' NA),
      eligibility = Some (get_default c ''Eligibility'' NA)\<rparr>"

section \<open>Two runs over the same university\<close>

text \<open>
  The rows of two runs that resolve the same university: each run draws fresh
  identifiers, so the university and its course carry a different \<open>university_id\<close> in
  the second run.
\<close>

definition oxford_info :: pdict where
  "oxford_info = [''University Name'' \<mapsto> str ''University of Oxford'',
                  ''Country'' \<mapsto> str ''United Kingdom'',
                  ''City'' \<mapsto> str ''Oxford'',
                  ''Website'' \<mapsto> str ''https://www.ox.ac.uk'']"

definition oxford_run1 :: uni_row where
  "oxford_run1 = university_record (str ''a1b2c3d4'') oxford_info"

definition oxford_run2 :: uni_row where
  "oxford_run2 = university_record (str ''e5f6a7b8'') oxford_info"

definition course_run1 :: course_row where
  "course_run1 = course_record (str ''0c0c0c01'') (str ''a1b2c3d4'') (placeholder (str ''Oxford'') 1)"

definition course_run2 :: course_row where
  "course_run2 = course_record (str ''0c0c0c02'') (str ''e5f6a7b8'') (placeholder (str ''Oxford'') 1)"

definition course_run2_again :: course_row where
  "course_run2_again =
     course_record (str ''0c0c0c03'') (str ''e5f6a7b8'') (placeholder (str ''Oxford'') 1)"

section \<open>Example pages\<close>

text \<open>A page on which every query finds nothing, from which the examples are built.\<close>

definition blank_page :: soup where
  "blank_page =
     \<lparr>body_text = None, find_text = (\<lambda>tag. None), select = (\<lambda>selector. []),
      find_all_a = [], find_all_text = (\<lambda>names. []), first_heading = None, infobox = None\<rparr>"

text \<open>Two reference pages: one with a full location, one whose location is a city only.\<close>

definition oxford_location :: infobox_row where
  "oxford_location =
     \<lparr>th = Some (str ''Location''), td = Some (str ''Oxford, England, United Kingdom''),
      td_href = None\<rparr>"

definition oxford_website :: infobox_row where
  "oxford_website =
     \<lparr>th = Some (str ''Website''), td = Some (str ''ox.ac.uk''),
      td_href = Some (str ''https://www.ox.ac.uk'')\<rparr>"

definition oxford_wiki :: soup where
  "oxford_wiki = blank_page\<lparr>first_heading := Some (str ''University of Oxford''),
                             infobox := Some [oxford_location, oxford_website]\<rparr>"

definition oxford_wiki_url :: ustr where
  "oxford_wiki_url = str ''https://en.wikipedia.org/wiki/University_of_Oxford''"

definition sorbonne_location :: infobox_row where
  "sorbonne_location = \<lparr>th = Some (str ''Location''), td = Some (str ''Paris''), td_href = None\<rparr>"

definition sorbonne_wiki :: soup where
  "sorbonne_wiki = blank_page\<lparr>first_heading := Some (str ''Sorbonne University''),
                               infobox := Some [sorbonne_location]\<rparr>"

definition sorbonne_wiki_url :: ustr where
  "sorbonne_wiki_url = str ''https://en.wikipedia.org/wiki/Sorbonne_University''"

definition wiki_web :: web where
  "wiki_web u verify =
     (if u = oxford_wiki_url then Some oxford_wiki
      else if u = sorbonne_wiki_url then Some sorbonne_wiki
      else None)"

text \<open>A school page of Jamia Hamdard that lists one diploma, reached from the schools page.\<close>

definition pharmacy_url :: ustr where
  "pharmacy_url = str ''https://www.jamiahamdard.ac.in/school-of-pharmacy''"

definition schools_page :: soup where
  "schools_page =
     blank_page\<lparr>find_all_a := [\<lparr>href = Some pharmacy_url, link_text = str ''School of Pharmacy''\<rparr>]\<rparr>"

definition pharmacy_page :: soup where
  "pharmacy_page = blank_page\<lparr>find_all_text := (\<lambda>names. [str ''Diploma in Pharmacy''])\<rparr>"

definition hamdard_web :: web where
  "hamdard_web u verify =
     (if u = str ''https://www.jamiahamdard.ac.in/new-school313'' then Some schools_page
      else if u = pharmacy_url then Some pharmacy_page
      else None)"

text \<open>
  The course page of the specification's example, and a page whose only amount has two
  digits around a comma.
\<close>

definition bsc_page :: soup where
  "bsc_page =
     blank_page\<lparr>body_text := Some (str ''BSc Computer Science Duration: 3 years Tuition fee: ''
                                     @ [163] @ str ''15,000 per annum''),
                find_text := (\<lambda>tag. if tag = ''h1'' then Some (str ''BSc Computer Science'')
                                     else None)\<rparr>"

definition small_fee_page :: soup where
  "small_fee_page = blank_page\<lparr>body_text := Some (str ''Locker deposit '' @ [163] @ str ''1,5 only'')\<rparr>"

section \<open>Properties of the discipline classifier\<close>

text \<open>\<open>contains\<close> is the substring test.\<close>

lemma contains_iff: "contains k s \<longleftrightarrow> (\<exists>ps ss. s = ps @ k @ ss)"
proof (induction s)
  case Nil
  then show ?case by auto
next
  case (Cons c cs)
  show ?case
  proof
    assume "contains k (c # cs)"
    then consider "take (length k) (c # cs) = k" | "contains k cs"
      by (auto split: if_splits)
    then show "\<exists>ps ss. c # cs = ps @ k @ ss"
    proof cases
      case 1
      then have "c # cs = [] @ k @ drop (length k) (c # cs)"
        by (metis append_Nil append_take_drop_id)
      then show ?thesis by blast
    next
      case 2
      then obtain ps ss where "cs = ps @ k @ ss" using Cons.IH by blast
      then have "c # cs = (c # ps) @ k @ ss" by simp
      then show ?thesis by blast
    qed
  next
    assume "\<exists>ps ss. c # cs = ps @ k @ ss"
    then obtain ps ss where e: "c # cs = ps @ k @ ss" by blast
    show "contains k (c # cs)"
    proof (cases ps)
      case Nil
      then have "take (length k) (c # cs) = k" using e by simp
      then show ?thesis by simp
    next
      case (Cons p ps')
      then have "cs = ps' @ k @ ss" using e by simp
      then have "contains k cs" using Cons.IH by blast
      then show ?thesis by simp
    qed
  qed
qed

lemma discipline_loop_first:
  "(\<exists>i<length tbl. contains (fst (tbl ! i)) s \<and> (\<forall>j<i. \<not> contains (fst (tbl ! j)) s)
       \<and> discipline_loop tbl s = snd (tbl ! i))
   \<or> ((\<forall>kd\<in>set tbl. \<not> contains (fst kd) s) \<and> discipline_loop tbl s = str ''General'')"
proof (induction tbl)
  case Nil
  then show ?case by simp
next
  case (Cons kd tbl)
  obtain k d where kd: "kd = (k, d)" by (cases kd)
  show ?case
  proof (cases "contains k s")
    case True
    then have "contains (fst ((kd # tbl) ! 0)) s \<and> (\<forall>j<0. \<not> contains (fst ((kd # tbl) ! j)) s)
       \<and> discipline_loop (kd # tbl) s = snd ((kd # tbl) ! 0)"
      by (simp add: kd)
    then show ?thesis by (intro disjI1 exI[of _ 0]) simp
  next
    case False
    from Cons.IH show ?thesis
    proof
      assume "\<exists>i<length tbl. contains (fst (tbl ! i)) s \<and> (\<forall>j<i. \<not> contains (fst (tbl ! j)) s)
       \<and> discipline_loop tbl s = snd (tbl ! i)"
      then obtain i where i: "i < length tbl" "contains (fst (tbl ! i)) s"
        "\<forall>j<i. \<not> contains (fst (tbl ! j)) s" "discipline_loop tbl s = snd (tbl ! i)" by blast
      have "\<forall>j<Suc i. \<not> contains (fst ((kd # tbl) ! j)) s"
        using i(3) False by (auto simp: kd nth_Cons split: nat.splits)
      then have "Suc i < length (kd # tbl) \<and> contains (fst ((kd # tbl) ! Suc i)) s
         \<and> (\<forall>j<Suc i. \<not> contains (fst ((kd # tbl) ! j)) s)
         \<and> discipline_loop (kd # tbl) s = snd ((kd # tbl) ! Suc i)"
        using i False by (simp add: kd)
      then show ?thesis by blast
    next
      assume "(\<forall>kd\<in>set tbl. \<not> contains (fst kd) s) \<and> discipline_loop tbl s = str ''General''"
      then show ?thesis using False by (simp add: kd)
    qed
  qed
qed

lemma general_not_label: "\<forall>kd\<in>set discipline_map. snd kd \<noteq> str ''General''"
  by (simp add: discipline_map_def str_def)

lemma na_not_label: "\<forall>kd\<in>set discipline_map. snd kd \<noteq> NA"
  by (simp add: discipline_map_def str_def NA_def)

text \<open>
  Claim C7. \<open>guess_discipline\<close> returns one label for every course name: the label of
  the first keyword of the table, in table order, that occurs in the lowered name, and
  \<open>General\<close> exactly when no keyword of the table occurs in it.
\<close>

theorem guess_discipline_total_first_match:
  "((\<exists>i<length discipline_map.
        contains (fst (discipline_map ! i)) (lower name)
      \<and> (\<forall>j<i. \<not> contains (fst (discipline_map ! j)) (lower name))
      \<and> guess_discipline name = snd (discipline_map ! i))
    \<or> ((\<forall>kd\<in>set discipline_map. \<not> contains (fst kd) (lower name))
      \<and> guess_discipline name = str ''General''))
   \<and> (guess_discipline name = str ''General''
        \<longleftrightarrow> (\<forall>kd\<in>set discipline_map. \<not> contains (fst kd) (lower name)))"
proof -
  let ?s = "lower name"
  have first: "(\<exists>i<length discipline_map.
        contains (fst (discipline_map ! i)) ?s
      \<and> (\<forall>j<i. \<not> contains (fst (discipline_map ! j)) ?s)
      \<and> guess_discipline name = snd (discipline_map ! i))
    \<or> ((\<forall>kd\<in>set discipline_map. \<not> contains (fst kd) ?s)
      \<and> guess_discipline name = str ''General'')"
    unfolding guess_discipline_def by (rule discipline_loop_first)
  have "guess_discipline name \<noteq> str ''General''"
    if "\<exists>kd\<in>set discipline_map. contains (fst kd) ?s"
  proof -
    from first that obtain i where "i < length discipline_map"
      "guess_discipline name = snd (discipline_map ! i)" by blast
    then show ?thesis using general_not_label by (metis nth_mem)
  qed
  moreover have "guess_discipline name = str ''General''"
    if "\<forall>kd\<in>set discipline_map. \<not> contains (fst kd) ?s"
    using first that by (metis nth_mem)
  ultimately show ?thesis using first by blast
qed

text \<open>The classifier at a name with a keyword and at a name without one.\<close>

theorem guess_discipline_witness:
  "guess_discipline (str ''BSc Computer Science'') = str ''Computer Science''
   \<and> contains (str ''computer'') (lower (str ''BSc Computer Science''))
   \<and> guess_discipline (str ''Fine Art'') = str ''General''"
  using guess_discipline_total_first_match [of "str ''BSc Computer Science''"]
    guess_discipline_total_first_match [of "str ''Fine Art''"]
  by (simp add: guess_discipline_def discipline_map_def str_def lower_def lower_cp_def)

section \<open>Properties of padding\<close>

lemma pad_loop_long: "5 \<le> length courses \<Longrightarrow> pad_loop courses label = courses"
  by (simp add: pad_loop.simps)

lemma pad_loop_short:
  "length courses \<le> 5 \<Longrightarrow>
   pad_loop courses label = courses @ map (placeholder label) [length courses + 1 ..< 6]"
proof (induction courses label rule: pad_loop.induct)
  case (1 courses label)
  show ?case
  proof (cases "length courses < 5")
    case True
    then have "pad_loop courses label
        = pad_loop (courses @ [placeholder label (length courses + 1)]) label"
      by (subst pad_loop.simps) simp
    also have "\<dots> = (courses @ [placeholder label (length courses + 1)])
        @ map (placeholder label) [length courses + 2 ..< 6]"
      using "1.IH" [OF True] True by simp
    also have "\<dots> = courses @ map (placeholder label) [length courses + 1 ..< 6]"
      using True by (simp add: upt_conv_Cons)
    finally show ?thesis .
  next
    case False
    then have "length courses = 5" using "1.prems" by simp
    then show ?thesis by (simp add: pad_loop.simps)
  qed
qed

text \<open>
  Claim C3, amended. For every list of course records and every label \<open>pad_courses\<close>
  returns exactly five records. A shorter input is extended by placeholder rows, a longer
  one is cut to its first five, and the records of the input that survive keep their
  values and order. A placeholder row has the course name \<open><label> Course <n>\<close>, the
  discipline \<open>General\<close>, and the sentinel in Level, Duration, Fees and Eligibility.
\<close>

theorem pad_courses_exactly_five:
  "length (pad_courses courses label) = 5
   \<and> (length courses < 5 \<longrightarrow>
        pad_courses courses label
          = courses @ map (placeholder label) [length courses + 1 ..< 6])
   \<and> (5 \<le> length courses \<longrightarrow> pad_courses courses label = take 5 courses)
   \<and> take (length courses) (pad_courses courses label) = take 5 courses
   \<and> placeholder label n ''Course Name'' = Some (label @ str '' Course '' @ digits_of n)
   \<and> placeholder label n ''Discipline'' = Some (str ''General'')
   \<and> placeholder label n ''Level'' = Some NA
   \<and> placeholder label n ''Duration'' = Some NA
   \<and> placeholder label n ''Fees'' = Some NA
   \<and> placeholder label n ''Eligibility'' = Some NA"
proof -
  have short: "pad_courses courses label
      = courses @ map (placeholder label) [length courses + 1 ..< 6]"
    if "length courses < 5"
    using that by (simp add: pad_courses_def pad_loop_short)
  have long: "pad_courses courses label = take 5 courses" if "5 \<le> length courses"
    using that by (simp add: pad_courses_def pad_loop_long)
  have len: "length (pad_courses courses label) = 5"
  proof (cases "length courses < 5")
    case True
    then show ?thesis by (simp add: short)
  next
    case False
    then show ?thesis by (simp add: long)
  qed
  have keep: "take (length courses) (pad_courses courses label) = take 5 courses"
  proof (cases "length courses < 5")
    case True
    then show ?thesis by (simp add: short)
  next
    case False
    then show ?thesis by (simp add: long)
  qed
  have ph: "placeholder label n ''Course Name'' = Some (label @ str '' Course '' @ digits_of n)
   \<and> placeholder label n ''Discipline'' = Some (str ''General'')
   \<and> placeholder label n ''Level'' = Some NA
   \<and> placeholder label n ''Duration'' = Some NA
   \<and> placeholder label n ''Fees'' = Some NA
   \<and> placeholder label n ''Eligibility'' = Some NA"
    by (simp add: placeholder_def)
  show ?thesis using short long len keep ph by blast
qed

text \<open>Padding a batch of one record, and cutting a batch of seven.\<close>

theorem pad_courses_witness:
  "length [placeholder (str ''X'') 9] < 5
   \<and> pad_courses [placeholder (str ''X'') 9] (str ''Oxford'')
      = [placeholder (str ''X'') 9, placeholder (str ''Oxford'') 2, placeholder (str ''Oxford'') 3,
         placeholder (str ''Oxford'') 4, placeholder (str ''Oxford'') 5]
   \<and> 5 \<le> length (replicate 7 (placeholder (str ''X'') 9))
   \<and> pad_courses (replicate 7 (placeholder (str ''X'') 9)) (str ''Oxford'')
      = replicate 5 (placeholder (str ''X'') 9)"
  using pad_courses_exactly_five [of "[placeholder (str ''X'') 9]" "str ''Oxford''"]
    pad_courses_exactly_five [of "replicate 7 (placeholder (str ''X'') 9)" "str ''Oxford''"]
  by (simp add: upt_conv_Cons numeral_eq_Suc)

text \<open>
  The discipline of a placeholder row is \<open>General\<close>, which is not the sentinel
  \<open>Not Available\<close>: not every data field of a placeholder is the sentinel.
\<close>

theorem pad_courses_placeholder_discipline_counterexample:
  "(pad_courses [] (str ''Oxford'') ! 0) ''Discipline'' = Some (str ''General'')
   \<and> str ''General'' \<noteq> NA
   \<and> (pad_courses [] (str ''Oxford'') ! 0) ''Course Name'' = Some (str ''Oxford Course 1'')"
  by (simp add: pad_courses_def pad_loop.simps placeholder_def NA_def str_def digits_of.simps)

section \<open>Properties of scraping one course page\<close>

lemma put_dom: "dom (put key found results) = (if found = None then dom results else insert key (dom results))"
  by (auto simp: put_def split: option.splits)

lemma put_other: "k \<noteq> key \<Longrightarrow> put key found results k = results k"
  by (simp add: put_def split: option.splits)

lemma copy_keys_other: "k \<notin> set keys \<Longrightarrow> copy_keys keys details course k = course k"
  by (induction keys arbitrary: course) (auto simp: put_other)

lemma copy_keys_dom: "set keys \<subseteq> dom course \<Longrightarrow> dom (copy_keys keys details course) = dom course"
proof (induction keys arbitrary: course)
  case Nil
  then show ?case by simp
next
  case (Cons key keys)
  have "dom (put key (details key) course) = dom course"
    using Cons.prems by (auto simp: put_dom)
  then show ?case using Cons by simp
qed

lemma discipline_loop_label:
  "discipline_loop tbl s = str ''General'' \<or> discipline_loop tbl s \<in> snd ` set tbl"
  by (induction tbl s rule: discipline_loop.induct) auto

lemma general_not_NA: "str ''General'' \<noteq> NA"
  by (simp add: NA_def str_def)

lemma guess_discipline_not_NA: "guess_discipline n \<noteq> NA"
proof -
  let ?l = "discipline_loop discipline_map (lower n)"
  have "?l = str ''General'' \<or> ?l \<in> snd ` set discipline_map"
    by (rule discipline_loop_label)
  then have "?l \<noteq> NA"
  proof
    assume "?l = str ''General''"
    then show ?thesis by (simp only: general_not_NA not_False_eq_True)
  next
    assume "?l \<in> snd ` set discipline_map"
    then obtain kd where kd: "kd \<in> set discipline_map" and l: "?l = snd kd"
      by (rule imageE)
    from na_not_label kd have "snd kd \<noteq> NA" by (rule bspec)
    then show ?thesis by (simp only: l not_False_eq_True)
  qed
  then show ?thesis by (simp only: guess_discipline_def not_False_eq_True)
qed

lemma base_dom:
  "dom [''Course Name'' \<mapsto> a, ''Level'' \<mapsto> b, ''Discipline'' \<mapsto> c, ''Duration'' \<mapsto> d,
        ''Fees'' \<mapsto> e, ''Eligibility'' \<mapsto> (f::ustr)]
     = {''Course Name'', ''Level'', ''Discipline'', ''Duration'', ''Fees'', ''Eligibility''}"
  by auto

lemma name_dom:
  assumes "dom course
    = {''Course Name'', ''Level'', ''Discipline'', ''Duration'', ''Fees'', ''Eligibility''}"
  shows "dom (case x of None \<Rightarrow> course
                | Some n \<Rightarrow> if n = [] then course else course(''Course Name'' \<mapsto> n))
          = dom course"
proof -
  have "insert ''Course Name'' (dom course) = dom course"
    unfolding assms by (rule insert_absorb) (rule insertI1)
  then show ?thesis by (simp split: option.splits)
qed

lemma keys_sub:
  "set [''Level'', ''Duration'', ''Fees'', ''Eligibility'']
     \<subseteq> {''Course Name'', ''Level'', ''Discipline'', ''Duration'', ''Fees'', ''Eligibility''}"
  by simp

lemma scrape_failed:
  "get_soup w url verify = None \<Longrightarrow>
   scrape_course_page w url fallback_name verify
     = [''Course Name'' \<mapsto> fallback_name, ''Level'' \<mapsto> NA, ''Discipline'' \<mapsto> NA,
        ''Duration'' \<mapsto> NA, ''Fees'' \<mapsto> NA, ''Eligibility'' \<mapsto> NA]"
  by (simp add: scrape_course_page_def)

lemma scrape_fetched:
  assumes "get_soup w url verify = Some page"
  shows "dom (scrape_course_page w url fallback_name verify)
           = {''Course Name'', ''Level'', ''Discipline'', ''Duration'', ''Fees'', ''Eligibility''}"
    and "\<exists>n. scrape_course_page w url fallback_name verify ''Course Name'' = Some n
            \<and> scrape_course_page w url fallback_name verify ''Discipline''
                = Some (guess_discipline n)"
proof -
  define course where "course = [''Course Name'' \<mapsto> fallback_name, ''Level'' \<mapsto> NA,
     ''Discipline'' \<mapsto> NA, ''Duration'' \<mapsto> NA, ''Fees'' \<mapsto> NA, ''Eligibility'' \<mapsto> NA]"
  define course1 where "course1 = (case extract_course_name (Some page) of
       None \<Rightarrow> course | Some n \<Rightarrow> if n = [] then course else course(''Course Name'' \<mapsto> n))"
  define course2 where "course2 = copy_keys [''Level'', ''Duration'', ''Fees'', ''Eligibility'']
       (extract_details_from_page (Some page)) course1"
  have res: "scrape_course_page w url fallback_name verify
      = course2(''Discipline'' \<mapsto> guess_discipline (the (course2 ''Course Name'')))"
    unfolding scrape_course_page_def course2_def course1_def course_def Let_def assms
    by (simp only: option.case)
  have d0: "dom course
      = {''Course Name'', ''Level'', ''Discipline'', ''Duration'', ''Fees'', ''Eligibility''}"
    unfolding course_def by (rule base_dom)
  have d1: "dom course1 = dom course"
    unfolding course1_def using d0 by (rule name_dom)
  have d2: "dom course2 = dom course1"
    unfolding course2_def by (rule copy_keys_dom) (simp only: d1 d0 keys_sub)
  have d2': "dom course2
      = {''Course Name'', ''Level'', ''Discipline'', ''Duration'', ''Fees'', ''Eligibility''}"
    by (simp only: d2 d1 d0)
  have "''Course Name'' \<in> dom course2"
    unfolding d2' by (rule insertI1)
  then have "\<exists>n. course2 ''Course Name'' = Some n"
    by (simp only: dom_def mem_Collect_eq not_None_eq)
  then obtain n where n: "course2 ''Course Name'' = Some n" by (rule exE)
  have "insert ''Discipline'' (dom course2) = dom course2"
    unfolding d2' by (rule insert_absorb) simp
  then have "dom (scrape_course_page w url fallback_name verify) = dom course2"
    unfolding res by simp
  then show "dom (scrape_course_page w url fallback_name verify)
           = {''Course Name'', ''Level'', ''Discipline'', ''Duration'', ''Fees'', ''Eligibility''}"
    by (simp only: d2')
  have "scrape_course_page w url fallback_name verify ''Course Name'' = Some n"
    unfolding res using n by simp
  moreover have "scrape_course_page w url fallback_name verify ''Discipline''
      = Some (guess_discipline n)"
    unfolding res using n by simp
  ultimately have "scrape_course_page w url fallback_name verify ''Course Name'' = Some n
            \<and> scrape_course_page w url fallback_name verify ''Discipline''
                = Some (guess_discipline n)"
    by (rule conjI)
  then show "\<exists>n. scrape_course_page w url fallback_name verify ''Course Name'' = Some n
            \<and> scrape_course_page w url fallback_name verify ''Discipline''
                = Some (guess_discipline n)"
    by (rule exI)
qed

lemma scrape_dom:
  "dom (scrape_course_page w url fallback_name verify)
     = {''Course Name'', ''Level'', ''Discipline'', ''Duration'', ''Fees'', ''Eligibility''}"
proof (cases "get_soup w url verify")
  case None
  show ?thesis unfolding scrape_failed [OF None] by (rule base_dom)
next
  case (Some page)
  then show ?thesis by (rule scrape_fetched(1))
qed

lemma scrape_failed_fields:
  assumes "get_soup w url verify = None"
  shows "scrape_course_page w url fallback_name verify ''Course Name'' = Some fallback_name
      \<and> scrape_course_page w url fallback_name verify ''Level'' = Some NA
      \<and> scrape_course_page w url fallback_name verify ''Discipline'' = Some NA
      \<and> scrape_course_page w url fallback_name verify ''Duration'' = Some NA
      \<and> scrape_course_page w url fallback_name verify ''Fees'' = Some NA
      \<and> scrape_course_page w url fallback_name verify ''Eligibility'' = Some NA"
  unfolding scrape_failed [OF assms] by simp

lemma scrape_fetched_discipline:
  assumes "get_soup w url verify \<noteq> None"
  shows "(\<exists>n. scrape_course_page w url fallback_name verify ''Course Name'' = Some n
           \<and> scrape_course_page w url fallback_name verify ''Discipline''
               = Some (guess_discipline n))
      \<and> scrape_course_page w url fallback_name verify ''Discipline'' \<noteq> Some NA"
proof -
  from assms obtain page where page: "get_soup w url verify = Some page"
    by (simp only: not_None_eq) (erule exE)
  have ex: "\<exists>n. scrape_course_page w url fallback_name verify ''Course Name'' = Some n
           \<and> scrape_course_page w url fallback_name verify ''Discipline''
               = Some (guess_discipline n)"
    using page by (rule scrape_fetched(2))
  then obtain n where ds: "scrape_course_page w url fallback_name verify ''Discipline''
               = Some (guess_discipline n)"
    by (elim exE conjE)
  have "scrape_course_page w url fallback_name verify ''Discipline'' \<noteq> Some NA"
    unfolding ds using guess_discipline_not_NA [of n] by simp
  with ex show ?thesis by (rule conjI)
qed

text \<open>
  Claim C10, amended. For every URL and fallback name \<open>scrape_course_page\<close> returns a
  record with exactly the six keys, each holding a string. When the fetch fails the
  course name is the fallback name and every other field, Discipline included, is the
  sentinel. When the fetch succeeds Discipline is \<open>guess_discipline\<close> of the final
  course name, and so is not the sentinel.
\<close>

theorem scrape_course_page_record:
  "dom (scrape_course_page w url fallback_name verify)
     = {''Course Name'', ''Level'', ''Discipline'', ''Duration'', ''Fees'', ''Eligibility''}
   \<and> (get_soup w url verify = None \<longrightarrow>
        scrape_course_page w url fallback_name verify ''Course Name'' = Some fallback_name
      \<and> scrape_course_page w url fallback_name verify ''Level'' = Some NA
      \<and> scrape_course_page w url fallback_name verify ''Discipline'' = Some NA
      \<and> scrape_course_page w url fallback_name verify ''Duration'' = Some NA
      \<and> scrape_course_page w url fallback_name verify ''Fees'' = Some NA
      \<and> scrape_course_page w url fallback_name verify ''Eligibility'' = Some NA)
   \<and> (get_soup w url verify \<noteq> None \<longrightarrow>
        (\<exists>n. scrape_course_page w url fallback_name verify ''Course Name'' = Some n
           \<and> scrape_course_page w url fallback_name verify ''Discipline''
               = Some (guess_discipline n))
      \<and> scrape_course_page w url fallback_name verify ''Discipline'' \<noteq> Some NA)"
  by (intro conjI impI scrape_dom; (elim scrape_failed_fields [THEN conjunct1]
        scrape_failed_fields [THEN conjunct2, THEN conjunct1]
        scrape_failed_fields [THEN conjunct2, THEN conjunct2, THEN conjunct1]
        scrape_failed_fields [THEN conjunct2, THEN conjunct2, THEN conjunct2, THEN conjunct1]
        scrape_failed_fields [THEN conjunct2, THEN conjunct2, THEN conjunct2, THEN conjunct2,
          THEN conjunct1]
        scrape_failed_fields [THEN conjunct2, THEN conjunct2, THEN conjunct2, THEN conjunct2,
          THEN conjunct2]
        scrape_fetched_discipline [THEN conjunct1]
        scrape_fetched_discipline [THEN conjunct2])?)

text \<open>A failed fetch, and a fetched page without body or headings.\<close>

theorem scrape_course_page_witness:
  "get_soup (\<lambda>u v. None) (str ''https://x.example/c'') True = None
   \<and> scrape_course_page (\<lambda>u v. None) (str ''https://x.example/c'') (str ''Law'') True ''Course Name''
       = Some (str ''Law'')
   \<and> get_soup (\<lambda>u v. Some \<lparr>body_text = None, find_text = (\<lambda>t. None), select = (\<lambda>s. []),
          find_all_a = [], find_all_text = (\<lambda>ts. []), first_heading = None, infobox = None\<rparr>)
        (str ''https://x.example/c'') True \<noteq> None
   \<and> scrape_course_page (\<lambda>u v. Some \<lparr>body_text = None, find_text = (\<lambda>t. None), select = (\<lambda>s. []),
          find_all_a = [], find_all_text = (\<lambda>ts. []), first_heading = None, infobox = None\<rparr>)
        (str ''https://x.example/c'') (str ''Law'') True ''Discipline'' \<noteq> Some NA"
  using scrape_course_page_record [of "\<lambda>u v. None" "str ''https://x.example/c''" "str ''Law''" True]
    scrape_course_page_record [of "\<lambda>u v. Some \<lparr>body_text = None, find_text = (\<lambda>t. None),
          select = (\<lambda>s. []), find_all_a = [], find_all_text = (\<lambda>ts. []), first_heading = None,
          infobox = None\<rparr>" "str ''https://x.example/c''" "str ''Law''" True]
  by (simp add: get_soup_def)

text \<open>
  After a failed fetch the record keeps the fallback name \<open>Law\<close>, whose discipline is
  \<open>Law\<close>, but its Discipline field is the sentinel.
\<close>

theorem scrape_course_page_failed_fetch_counterexample:
  "scrape_course_page (\<lambda>u v. None) (str ''https://x.example/c'') (str ''Law'') True ''Course Name''
     = Some (str ''Law'')
   \<and> scrape_course_page (\<lambda>u v. None) (str ''https://x.example/c'') (str ''Law'') True ''Discipline''
     = Some NA
   \<and> guess_discipline (str ''Law'') = str ''Law''
   \<and> str ''Law'' \<noteq> NA"
  by (simp add: scrape_course_page_def get_soup_def guess_discipline_def discipline_map_def
      lower_def lower_cp_def str_def NA_def)

section \<open>Properties of link discovery\<close>

lemma pad_loop_nil: "pad_loop [] label = map (placeholder label) [1 ..< 6]"
proof -
  have "pad_loop [] label = [] @ map (placeholder label) [length ([]::pdict list) + 1 ..< 6]"
    by (rule pad_loop_short) simp
  then show ?thesis by simp
qed

text \<open>
  Claim C6. When the fetch of the listing page fails, \<open>discover_and_scrape\<close> returns
  the empty list, and \<open>pad_courses\<close> on it gives the five placeholder rows of the
  label; so does the Oxford adapter, which is that composition.
\<close>

theorem listing_fetch_failure_padded:
  assumes "get_soup w listing_url verify = None"
  shows "discover_and_scrape urljoin w listing_url link_selector base_url verify max_courses = []
    \<and> pad_courses
         (discover_and_scrape urljoin w listing_url link_selector base_url verify max_courses) label
        = map (placeholder label) [1 ..< 6]
    \<and> length (pad_courses
         (discover_and_scrape urljoin w listing_url link_selector base_url verify max_courses) label)
        = 5
    \<and> (listing_url = str ''https://www.ox.ac.uk/admissions/undergraduate/courses/course-listing''
          \<and> verify \<longrightarrow>
        extract_courses_oxford urljoin w = map (placeholder (str ''Oxford'')) [1 ..< 6])"
proof -
  have e: "\<And>sel b m. discover_and_scrape urljoin w listing_url sel b verify m = []"
    using assms by (simp add: discover_and_scrape_def)
  have p: "\<And>l. pad_courses [] l = map (placeholder l) [1 ..< 6]"
    by (simp add: pad_courses_def pad_loop_nil)
  have ox: "extract_courses_oxford urljoin w = map (placeholder (str ''Oxford'')) [1 ..< 6]"
    if "listing_url = str ''https://www.ox.ac.uk/admissions/undergraduate/courses/course-listing''"
      and "verify"
  proof -
    have "verify = True" using that(2) by simp
    then show ?thesis
      unfolding extract_courses_oxford_def using e [of _ _ 5] that(1) by (simp add: p)
  qed
  show ?thesis
    using e p ox by simp
qed

text \<open>The Oxford adapter on a web where every fetch fails.\<close>

theorem listing_fetch_failure_witness:
  "get_soup (\<lambda>u v. None)
      (str ''https://www.ox.ac.uk/admissions/undergraduate/courses/course-listing'') True = None
   \<and> extract_courses_oxford (\<lambda>b h. b @ h) (\<lambda>u v. None)
      = [placeholder (str ''Oxford'') 1, placeholder (str ''Oxford'') 2,
         placeholder (str ''Oxford'') 3, placeholder (str ''Oxford'') 4,
         placeholder (str ''Oxford'') 5]"
  using listing_fetch_failure_padded [of "\<lambda>u v. None"
      "str ''https://www.ox.ac.uk/admissions/undergraduate/courses/course-listing''" True
      "\<lambda>b h. b @ h"]
  by (simp add: get_soup_def upt_conv_Cons numeral_eq_Suc)

section \<open>Properties of the merger\<close>

lemma drop_duplicates_last_subset: "set (drop_duplicates_last key rows) \<subseteq> set rows"
  by (induction rows) auto

lemma drop_duplicates_last_survivor:
  "k \<in> key ` set rows \<Longrightarrow>
   filter (\<lambda>r. key r = k) (drop_duplicates_last key rows) = [last (filter (\<lambda>r. key r = k) rows)]"
proof (induction rows)
  case Nil
  then show ?case by simp
next
  case (Cons r rs)
  show ?case
  proof (cases "key r \<in> set (map key rs)")
    case True
    then have later: "k \<in> key ` set rs" using Cons.prems by auto
    then have "filter (\<lambda>r. key r = k) rs \<noteq> []"
      by (auto simp: filter_empty_conv)
    then have "last (filter (\<lambda>r. key r = k) (r # rs)) = last (filter (\<lambda>r. key r = k) rs)"
      by simp
    then show ?thesis using True Cons.IH [OF later] by simp
  next
    case False
    show ?thesis
    proof (cases "key r = k")
      case True
      then have "\<forall>x\<in>set rs. key x \<noteq> k" using False by (force simp: image_iff)
      then have none: "filter (\<lambda>r. key r = k) rs = []"
        by (simp add: filter_empty_conv)
      have "\<forall>x\<in>set (drop_duplicates_last key rs). key x \<noteq> k"
        using \<open>\<forall>x\<in>set rs. key x \<noteq> k\<close> drop_duplicates_last_subset [of key rs] by blast
      then have "filter (\<lambda>r. key r = k) (drop_duplicates_last key rs) = []"
        by (simp add: filter_empty_conv)
      then show ?thesis using True False none by simp
    next
      case ne: False
      then have later: "k \<in> key ` set rs" using Cons.prems by auto
      then have "filter (\<lambda>r. key r = k) rs \<noteq> []"
        by (auto simp: filter_empty_conv)
      then have "last (filter (\<lambda>r. key r = k) (r # rs)) = last (filter (\<lambda>r. key r = k) rs)"
        by simp
      then show ?thesis using False ne Cons.IH [OF later] by simp
    qed
  qed
qed

lemma last_filter_nth:
  assumes "j < length rows" and "key (rows ! j) = k"
    and "\<forall>l. j < l \<and> l < length rows \<longrightarrow> key (rows ! l) \<noteq> k"
  shows "last (filter (\<lambda>r. key r = k) rows) = rows ! j"
proof -
  have split: "rows = take j rows @ (rows ! j) # drop (Suc j) rows"
    using assms(1) by (simp add: id_take_nth_drop)
  have "\<forall>x\<in>set (drop (Suc j) rows). key x \<noteq> k"
  proof
    fix x assume "x \<in> set (drop (Suc j) rows)"
    then obtain m where m: "m < length (drop (Suc j) rows)" "x = drop (Suc j) rows ! m"
      by (auto simp: in_set_conv_nth)
    then have "x = rows ! (Suc j + m)" "Suc j + m < length rows" by auto
    then show "key x \<noteq> k" using assms(3) by auto
  qed
  then have "filter (\<lambda>r. key r = k) (drop (Suc j) rows) = []"
    by (simp add: filter_empty_conv)
  then have "filter (\<lambda>r. key r = k) rows
      = filter (\<lambda>r. key r = k) (take j rows) @ [rows ! j]"
    using assms(2) by (subst split) simp
  then show ?thesis by simp
qed

lemma dedup_last_write_wins:
  assumes "i < j" and "j < length rows" and "key (rows ! i) = key (rows ! j)"
  shows "filter (\<lambda>r. key r = key (rows ! j)) (drop_duplicates_last key rows)
           = [last (filter (\<lambda>r. key r = key (rows ! j)) rows)]"
    and "(\<forall>l. j < l \<and> l < length rows \<longrightarrow> key (rows ! l) \<noteq> key (rows ! j)) \<Longrightarrow>
         filter (\<lambda>r. key r = key (rows ! j)) (drop_duplicates_last key rows) = [rows ! j]"
proof -
  have "key (rows ! j) \<in> key ` set rows" using assms(2) by simp
  then show 1: "filter (\<lambda>r. key r = key (rows ! j)) (drop_duplicates_last key rows)
           = [last (filter (\<lambda>r. key r = key (rows ! j)) rows)]"
    by (rule drop_duplicates_last_survivor)
  assume "\<forall>l. j < l \<and> l < length rows \<longrightarrow> key (rows ! l) \<noteq> key (rows ! j)"
  then have "last (filter (\<lambda>r. key r = key (rows ! j)) rows) = rows ! j"
    using assms(2) last_filter_nth [of j rows key "key (rows ! j)"] by simp
  then show "filter (\<lambda>r. key r = key (rows ! j)) (drop_duplicates_last key rows) = [rows ! j]"
    using 1 by simp
qed

text \<open>
  Claim C5. Deduplication in the merge keeps the last row: the rows read from the file
  come before the new rows, and whenever two rows of the concatenated Universities table
  have the same \<open>university_name\<close>, exactly one row with that name is kept, the last
  row of the table with that name, which is the later of the two when no row after it
  has the name. The same holds in the Courses table for the pair of \<open>course_name\<close> and
  \<open>university_id\<close>. The tables written are the kept rows with empty cells filled.
\<close>

theorem merge_last_write_wins:
  assumes "concat_tables existing df_uni_new df_courses_new = (df_uni, df_courses)"
    and "deduplicate (df_uni, df_courses) = (kept_uni, kept_courses)"
  shows "merge_and_persist existing df_uni_new df_courses_new
           = (map fillna_uni kept_uni, map fillna_course kept_courses)
    \<and> (\<forall>i j. i < j \<and> j < length df_uni
           \<and> university_name (df_uni ! i) = university_name (df_uni ! j) \<longrightarrow>
          filter (\<lambda>r. university_name r = university_name (df_uni ! j)) kept_uni
            = [last (filter (\<lambda>r. university_name r = university_name (df_uni ! j)) df_uni)]
        \<and> ((\<forall>l. j < l \<and> l < length df_uni \<longrightarrow>
                university_name (df_uni ! l) \<noteq> university_name (df_uni ! j)) \<longrightarrow>
             filter (\<lambda>r. university_name r = university_name (df_uni ! j)) kept_uni
               = [df_uni ! j]))
    \<and> (\<forall>i j. i < j \<and> j < length df_courses
           \<and> course_key (df_courses ! i) = course_key (df_courses ! j) \<longrightarrow>
          filter (\<lambda>r. course_key r = course_key (df_courses ! j)) kept_courses
            = [last (filter (\<lambda>r. course_key r = course_key (df_courses ! j)) df_courses)]
        \<and> ((\<forall>l. j < l \<and> l < length df_courses \<longrightarrow>
                course_key (df_courses ! l) \<noteq> course_key (df_courses ! j)) \<longrightarrow>
             filter (\<lambda>r. course_key r = course_key (df_courses ! j)) kept_courses
               = [df_courses ! j]))"
proof -
  have ku: "kept_uni = drop_duplicates_last university_name df_uni"
    and kc: "kept_courses = drop_duplicates_last course_key df_courses"
    using assms(2) by (simp_all add: deduplicate_def)
  have M: "merge_and_persist existing df_uni_new df_courses_new
           = (map fillna_uni kept_uni, map fillna_course kept_courses)"
    by (simp add: merge_and_persist_def assms fill_tables_def)
  have U: "\<forall>i j. i < j \<and> j < length df_uni
           \<and> university_name (df_uni ! i) = university_name (df_uni ! j) \<longrightarrow>
          filter (\<lambda>r. university_name r = university_name (df_uni ! j)) kept_uni
            = [last (filter (\<lambda>r. university_name r = university_name (df_uni ! j)) df_uni)]
        \<and> ((\<forall>l. j < l \<and> l < length df_uni \<longrightarrow>
                university_name (df_uni ! l) \<noteq> university_name (df_uni ! j)) \<longrightarrow>
             filter (\<lambda>r. university_name r = university_name (df_uni ! j)) kept_uni
               = [df_uni ! j])"
  proof (intro allI impI)
    fix i j
    assume "i < j \<and> j < length df_uni
           \<and> university_name (df_uni ! i) = university_name (df_uni ! j)"
    then have h: "i < j" "j < length df_uni"
      "university_name (df_uni ! i) = university_name (df_uni ! j)" by simp_all
    show "filter (\<lambda>r. university_name r = university_name (df_uni ! j)) kept_uni
            = [last (filter (\<lambda>r. university_name r = university_name (df_uni ! j)) df_uni)]
        \<and> ((\<forall>l. j < l \<and> l < length df_uni \<longrightarrow>
                university_name (df_uni ! l) \<noteq> university_name (df_uni ! j)) \<longrightarrow>
             filter (\<lambda>r. university_name r = university_name (df_uni ! j)) kept_uni
               = [df_uni ! j])"
      unfolding ku
      using dedup_last_write_wins(1) [OF h] dedup_last_write_wins(2) [OF h] by simp
  qed
  have C: "\<forall>i j. i < j \<and> j < length df_courses
           \<and> course_key (df_courses ! i) = course_key (df_courses ! j) \<longrightarrow>
          filter (\<lambda>r. course_key r = course_key (df_courses ! j)) kept_courses
            = [last (filter (\<lambda>r. course_key r = course_key (df_courses ! j)) df_courses)]
        \<and> ((\<forall>l. j < l \<and> l < length df_courses \<longrightarrow>
                course_key (df_courses ! l) \<noteq> course_key (df_courses ! j)) \<longrightarrow>
             filter (\<lambda>r. course_key r = course_key (df_courses ! j)) kept_courses
               = [df_courses ! j])"
  proof (intro allI impI)
    fix i j
    assume "i < j \<and> j < length df_courses
           \<and> course_key (df_courses ! i) = course_key (df_courses ! j)"
    then have h: "i < j" "j < length df_courses"
      "course_key (df_courses ! i) = course_key (df_courses ! j)" by simp_all
    show "filter (\<lambda>r. course_key r = course_key (df_courses ! j)) kept_courses
            = [last (filter (\<lambda>r. course_key r = course_key (df_courses ! j)) df_courses)]
        \<and> ((\<forall>l. j < l \<and> l < length df_courses \<longrightarrow>
                course_key (df_courses ! l) \<noteq> course_key (df_courses ! j)) \<longrightarrow>
             filter (\<lambda>r. course_key r = course_key (df_courses ! j)) kept_courses
               = [df_courses ! j])"
      unfolding kc
      using dedup_last_write_wins(1) [OF h] dedup_last_write_wins(2) [OF h] by simp
  qed
  show ?thesis by (rule conjI [OF M conjI [OF U C]])
qed


text \<open>The rows of the two runs, written out.\<close>

lemma run_rows:
  "oxford_run1 = \<lparr>uni_row.university_id = Some (str ''a1b2c3d4''),
      university_name = Some (str ''University of Oxford''),
      country = Some (str ''United Kingdom''), city = Some (str ''Oxford''),
      website = Some (str ''https://www.ox.ac.uk'')\<rparr>"
  "oxford_run2 = \<lparr>uni_row.university_id = Some (str ''e5f6a7b8''),
      university_name = Some (str ''University of Oxford''),
      country = Some (str ''United Kingdom''), city = Some (str ''Oxford''),
      website = Some (str ''https://www.ox.ac.uk'')\<rparr>"
  "course_run1 = \<lparr>course_id = Some (str ''0c0c0c01''), university_id = Some (str ''a1b2c3d4''),
      course_name = Some (str ''Oxford Course 1''), level = Some NA,
      discipline = Some (str ''General''), duration = Some NA, fees = Some NA,
      eligibility = Some NA\<rparr>"
  "course_run2 = \<lparr>course_id = Some (str ''0c0c0c02''), university_id = Some (str ''e5f6a7b8''),
      course_name = Some (str ''Oxford Course 1''), level = Some NA,
      discipline = Some (str ''General''), duration = Some NA, fees = Some NA,
      eligibility = Some NA\<rparr>"
  "course_run2_again = \<lparr>course_id = Some (str ''0c0c0c03''), university_id = Some (str ''e5f6a7b8''),
      course_name = Some (str ''Oxford Course 1''), level = Some NA,
      discipline = Some (str ''General''), duration = Some NA, fees = Some NA,
      eligibility = Some NA\<rparr>"
  by (simp_all add: oxford_run1_def oxford_run2_def course_run1_def course_run2_def
      course_run2_again_def university_record_def course_record_def oxford_info_def
      get_default_def placeholder_def digits_of.simps str_def)

lemma run_ids: "str ''a1b2c3d4'' \<noteq> str ''e5f6a7b8''"
  by (simp add: str_def)

lemma run_fill:
  "fillna_uni oxford_run1 = oxford_run1" "fillna_uni oxford_run2 = oxford_run2"
  "fillna_course course_run1 = course_run1" "fillna_course course_run2 = course_run2"
  "fillna_course course_run2_again = course_run2_again"
  by (simp_all add: run_rows fillna_uni_def fillna_course_def fillna_def)

lemma run_keys:
  "university_name oxford_run1 = university_name oxford_run2"
  "course_key course_run1 \<noteq> course_key course_run2"
  "course_key course_run2_again = course_key course_run2"
  "uni_row.university_id oxford_run2 = Some (str ''e5f6a7b8'')"
  "university_id course_run1 = Some (str ''a1b2c3d4'')"
  "university_id course_run2 = Some (str ''e5f6a7b8'')"
  by (simp_all add: run_rows course_key_def run_ids)

text \<open>
  Claim C1. Referential integrity of the written tables fails on the second run over
  the same university: the first run writes the university and its course; the second
  run reads them, drops the old university row because the new one has the same name,
  and keeps the old course row, whose \<open>university_id\<close> no row of the Universities
  table carries any more. The relational check of \<open>verify_data\<close> finds that row.
\<close>

theorem second_run_breaks_integrity:
  "merge_and_persist None [oxford_run1] [course_run1] = ([oxford_run1], [course_run1])
   \<and> merge_and_persist (Some ([oxford_run1], [course_run1])) [oxford_run2] [course_run2]
       = ([oxford_run2], [course_run1, course_run2])
   \<and> invalid_relations [oxford_run2] [course_run1, course_run2] = [course_run1]
   \<and> university_id course_run1 \<notin> set (map uni_row.university_id [oxford_run2])"
  by (simp add: merge_and_persist_def concat_tables_def deduplicate_def fill_tables_def
      invalid_relations_def run_fill run_keys run_ids)

text \<open>A merge where both tables hold two rows with the same key.\<close>

theorem merge_last_write_wins_witness:
  "concat_tables (Some ([oxford_run1], [course_run2])) [oxford_run2] [course_run2_again]
     = ([oxford_run1, oxford_run2], [course_run2, course_run2_again])
   \<and> deduplicate ([oxford_run1, oxford_run2], [course_run2, course_run2_again])
     = ([oxford_run2], [course_run2_again])
   \<and> merge_and_persist (Some ([oxford_run1], [course_run2])) [oxford_run2] [course_run2_again]
     = ([oxford_run2], [course_run2_again])
   \<and> (0::nat) < 1 \<and> 1 < length [oxford_run1, oxford_run2]
   \<and> university_name ([oxford_run1, oxford_run2] ! 0) = university_name ([oxford_run1, oxford_run2] ! 1)
   \<and> filter (\<lambda>r. university_name r = university_name ([oxford_run1, oxford_run2] ! 1)) [oxford_run2]
       = [oxford_run2]
   \<and> 1 < length [course_run2, course_run2_again]
   \<and> course_key ([course_run2, course_run2_again] ! 0) = course_key ([course_run2, course_run2_again] ! 1)
   \<and> filter (\<lambda>r. course_key r = course_key ([course_run2, course_run2_again] ! 1)) [course_run2_again]
       = [course_run2_again]"
proof -
  have h1: "concat_tables (Some ([oxford_run1], [course_run2])) [oxford_run2] [course_run2_again]
     = ([oxford_run1, oxford_run2], [course_run2, course_run2_again])"
    by (simp add: concat_tables_def)
  have h2: "deduplicate ([oxford_run1, oxford_run2], [course_run2, course_run2_again])
     = ([oxford_run2], [course_run2_again])"
    by (simp add: deduplicate_def run_keys)
  note t = merge_last_write_wins [OF h1 h2]
  have m: "merge_and_persist (Some ([oxford_run1], [course_run2])) [oxford_run2] [course_run2_again]
     = ([oxford_run2], [course_run2_again])"
    using t by (simp add: run_fill)
  have u: "filter (\<lambda>r. university_name r = university_name ([oxford_run1, oxford_run2] ! 1))
       [oxford_run2] = [oxford_run2]"
    using t [THEN conjunct2, THEN conjunct1, THEN spec, THEN spec, of 0 1]
    by (simp add: run_keys)
  have c: "filter (\<lambda>r. course_key r = course_key ([course_run2, course_run2_again] ! 1))
       [course_run2_again] = [course_run2_again]"
    using t [THEN conjunct2, THEN conjunct2, THEN spec, THEN spec, of 0 1]
    by (simp add: run_keys)
  show ?thesis using h1 h2 m u c by (simp add: run_keys)
qed

section \<open>Properties of the university info resolver\<close>

lemma scan_row_location:
  assumes "th row = Some h" and "td row = Some t" and "location_row row"
  shows "scan_row row info ''City'' = Some (hd (location_parts t))"
    and "2 \<le> length (location_parts t) \<Longrightarrow>
           scan_row row info ''Country'' = Some (last (location_parts t))"
    and "length (location_parts t) < 2 \<Longrightarrow> scan_row row info ''Country'' = info ''Country''"
  using assms by (simp_all add: scan_row_def location_row_def Let_def)

lemma scan_row_other:
  assumes "\<not> location_row row"
  shows "scan_row row info ''City'' = info ''City''"
    and "scan_row row info ''Country'' = info ''Country''"
  using assms
  by (cases "th row"; cases "td row"; simp add: scan_row_def location_row_def Let_def)+

lemma scan_infobox_other:
  "list_all (\<lambda>r. \<not> location_row r) rows \<Longrightarrow>
   scan_infobox rows info ''City'' = info ''City''
   \<and> scan_infobox rows info ''Country'' = info ''Country''"
  by (induction rows arbitrary: info) (simp_all add: scan_row_other)

lemma scan_infobox_append:
  "scan_infobox (xs @ ys) info = scan_infobox ys (scan_infobox xs info)"
  by (induction xs arbitrary: info) simp_all

lemma scan_row_country_dom: "info ''Country'' \<noteq> None \<Longrightarrow> scan_row row info ''Country'' \<noteq> None"
  by (cases "th row"; cases "td row"; simp add: scan_row_def Let_def)

lemma scan_infobox_country_dom:
  "info ''Country'' \<noteq> None \<Longrightarrow> scan_infobox rows info ''Country'' \<noteq> None"
  by (induction rows arbitrary: info) (simp_all add: scan_row_country_dom del: not_None_eq)

lemma scan_page_country_dom: "scan_page page ''Country'' \<noteq> None"
proof -
  define info1 where "info1 = (case first_heading page of
      None \<Rightarrow> [''University Name'' \<mapsto> NA, ''Country'' \<mapsto> NA, ''City'' \<mapsto> NA, ''Website'' \<mapsto> NA]
    | Some t \<Rightarrow> [''University Name'' \<mapsto> NA, ''Country'' \<mapsto> NA, ''City'' \<mapsto> NA,
         ''Website'' \<mapsto> NA, ''University Name'' \<mapsto> strip t])"
  have c: "info1 ''Country'' \<noteq> None"
    by (cases "first_heading page") (simp_all add: info1_def)
  have "scan_page page = (case infobox page of None \<Rightarrow> info1 | Some rows \<Rightarrow> scan_infobox rows info1)"
    by (simp only: scan_page_def info1_def Let_def)
  then show ?thesis
    using c by (cases "infobox page") (simp_all add: scan_infobox_country_dom del: not_None_eq)
qed

lemma fallback_loop_none:
  "list_all (\<lambda>e. \<not> contains (fst e) wiki_url) tbl \<Longrightarrow> fallback_loop tbl wiki_url info = info"
  by (induction tbl wiki_url info rule: fallback_loop.induct) simp_all

lemma fallback_loop_first:
  "i < length tbl \<Longrightarrow> contains (fst (tbl ! i)) wiki_url \<Longrightarrow>
   list_all (\<lambda>e. \<not> contains (fst e) wiki_url) (take i tbl) \<Longrightarrow>
   fallback_loop tbl wiki_url info
     = info(''Country'' \<mapsto> fst (snd (tbl ! i)), ''City'' \<mapsto> snd (snd (tbl ! i)))"
proof (induction tbl wiki_url info arbitrary: i rule: fallback_loop.induct)
  case (1 wiki_url info)
  then show ?case by simp
next
  case (2 key country city rest wiki_url info)
  show ?case
  proof (cases i)
    case 0
    then have "contains key wiki_url" using "2.prems"(2) by simp
    then have "fallback_loop ((key, country, city) # rest) wiki_url info
        = info(''Country'' \<mapsto> country, ''City'' \<mapsto> city)"
      by (simp only: fallback_loop.simps if_True)
    then show ?thesis by (simp only: 0 nth_Cons_0 fst_conv snd_conv)
  next
    case (Suc i')
    then have "\<not> contains key wiki_url" using "2.prems"(3) by simp
    then show ?thesis using Suc "2.prems" "2.IH" [of i'] by simp
  qed
qed


lemma scan_page_rows:
  "infobox page = Some (before @ row # after) \<Longrightarrow>
   scan_page page = scan_infobox after (scan_row row (scan_page (page\<lparr>infobox := Some before\<rparr>)))"
  by (simp add: scan_page_def Let_def scan_infobox_append)

lemma scan_page_location:
  assumes "infobox page = Some (before @ row # after)"
    and "td row = Some t" and "location_row row"
    and "list_all (\<lambda>r. \<not> location_row r) after"
  shows "scan_page page ''City'' = Some (hd (location_parts t))
     \<and> (2 \<le> length (location_parts t) \<longrightarrow>
          scan_page page ''Country'' = Some (last (location_parts t)))
     \<and> (length (location_parts t) < 2 \<longrightarrow>
          scan_page page ''Country'' = scan_page (page\<lparr>infobox := Some before\<rparr>) ''Country'')"
proof -
  from assms(3) obtain h where h: "th row = Some h"
    by (cases "th row") (simp_all add: location_row_def)
  let ?info = "scan_page (page\<lparr>infobox := Some before\<rparr>)"
  have p: "scan_page page = scan_infobox after (scan_row row ?info)"
    using assms(1) by (rule scan_page_rows)
  have c: "scan_page page ''City'' = scan_row row ?info ''City''"
    and k: "scan_page page ''Country'' = scan_row row ?info ''Country''"
    unfolding p using scan_infobox_other [OF assms(4)] by simp_all
  show ?thesis
    unfolding c k
    using scan_row_location [OF h assms(2) assms(3), of ?info] by simp
qed

lemma fetch_fallback:
  assumes "get_soup w wiki_url True = Some page"
  shows "fetch_wiki_university_info w wiki_url
     = (if scan_page page ''Country'' = Some NA
        then fallback_loop fallbacks wiki_url (scan_page page) else scan_page page)"
proof -
  obtain c where c: "scan_page page ''Country'' = Some c"
    using scan_page_country_dom [of page] by (cases "scan_page page ''Country''") simp_all
  show ?thesis
    by (simp add: fetch_wiki_university_info_def assms apply_fallbacks_def c)
qed

text \<open>
  Claim C8, amended. On a fetched reference page, let a location row of the infobox be
  followed by no other location row. After the scan City is the first comma-separated
  segment of its cell; Country is the last segment when the cell has at least two
  segments, and with a single segment Country is what the rows before left. The
  fallback table is consulted exactly when Country is the sentinel after the scan: the
  first entry whose key occurs in the URL then sets both Country and City, and when no
  key occurs the record is unchanged.
\<close>

theorem resolver_location_and_fallback:
  assumes "get_soup w wiki_url True = Some page"
  shows "(\<forall>before row after t.
            infobox page = Some (before @ row # after) \<and> td row = Some t \<and> location_row row
              \<and> list_all (\<lambda>r. \<not> location_row r) after \<longrightarrow>
            scan_page page ''City'' = Some (hd (location_parts t))
          \<and> (2 \<le> length (location_parts t) \<longrightarrow>
                scan_page page ''Country'' = Some (last (location_parts t)))
          \<and> (length (location_parts t) < 2 \<longrightarrow>
                scan_page page ''Country''
                  = scan_page (page\<lparr>infobox := Some before\<rparr>) ''Country''))
    \<and> fetch_wiki_university_info w wiki_url
         = (if scan_page page ''Country'' = Some NA
            then fallback_loop fallbacks wiki_url (scan_page page) else scan_page page)
    \<and> (list_all (\<lambda>e. \<not> contains (fst e) wiki_url) fallbacks \<longrightarrow>
          fallback_loop fallbacks wiki_url (scan_page page) = scan_page page)
    \<and> (\<forall>i. i < length fallbacks \<and> contains (fst (fallbacks ! i)) wiki_url
              \<and> list_all (\<lambda>e. \<not> contains (fst e) wiki_url) (take i fallbacks) \<longrightarrow>
            fallback_loop fallbacks wiki_url (scan_page page)
              = (scan_page page)(''Country'' \<mapsto> fst (snd (fallbacks ! i)),
                                 ''City'' \<mapsto> snd (snd (fallbacks ! i))))"
proof -
  have A: "\<forall>before row after t.
            infobox page = Some (before @ row # after) \<and> td row = Some t \<and> location_row row
              \<and> list_all (\<lambda>r. \<not> location_row r) after \<longrightarrow>
            scan_page page ''City'' = Some (hd (location_parts t))
          \<and> (2 \<le> length (location_parts t) \<longrightarrow>
                scan_page page ''Country'' = Some (last (location_parts t)))
          \<and> (length (location_parts t) < 2 \<longrightarrow>
                scan_page page ''Country''
                  = scan_page (page\<lparr>infobox := Some before\<rparr>) ''Country'')"
  proof (intro allI impI)
    fix before row after t
    assume "infobox page = Some (before @ row # after) \<and> td row = Some t \<and> location_row row
              \<and> list_all (\<lambda>r. \<not> location_row r) after"
    then have h: "infobox page = Some (before @ row # after)" "td row = Some t" "location_row row"
      "list_all (\<lambda>r. \<not> location_row r) after" by simp_all
    show "scan_page page ''City'' = Some (hd (location_parts t))
          \<and> (2 \<le> length (location_parts t) \<longrightarrow>
                scan_page page ''Country'' = Some (last (location_parts t)))
          \<and> (length (location_parts t) < 2 \<longrightarrow>
                scan_page page ''Country''
                  = scan_page (page\<lparr>infobox := Some before\<rparr>) ''Country'')"
      using h by (rule scan_page_location)
  qed
  have B: "fetch_wiki_university_info w wiki_url
         = (if scan_page page ''Country'' = Some NA
            then fallback_loop fallbacks wiki_url (scan_page page) else scan_page page)"
    using assms by (rule fetch_fallback)
  have C: "list_all (\<lambda>e. \<not> contains (fst e) wiki_url) fallbacks \<longrightarrow>
          fallback_loop fallbacks wiki_url (scan_page page) = scan_page page"
    by (rule impI) (rule fallback_loop_none)
  have D: "\<forall>i. i < length fallbacks \<and> contains (fst (fallbacks ! i)) wiki_url
              \<and> list_all (\<lambda>e. \<not> contains (fst e) wiki_url) (take i fallbacks) \<longrightarrow>
            fallback_loop fallbacks wiki_url (scan_page page)
              = (scan_page page)(''Country'' \<mapsto> fst (snd (fallbacks ! i)),
                                 ''City'' \<mapsto> snd (snd (fallbacks ! i)))"
  proof (intro allI impI)
    fix i
    assume "i < length fallbacks \<and> contains (fst (fallbacks ! i)) wiki_url
              \<and> list_all (\<lambda>e. \<not> contains (fst e) wiki_url) (take i fallbacks)"
    then have h: "i < length fallbacks" "contains (fst (fallbacks ! i)) wiki_url"
      "list_all (\<lambda>e. \<not> contains (fst e) wiki_url) (take i fallbacks)" by simp_all
    show "fallback_loop fallbacks wiki_url (scan_page page)
              = (scan_page page)(''Country'' \<mapsto> fst (snd (fallbacks ! i)),
                                 ''City'' \<mapsto> snd (snd (fallbacks ! i)))"
      using h by (rule fallback_loop_first)
  qed
  show ?thesis by (rule conjI [OF A conjI [OF B conjI [OF C D]]])
qed


text \<open>The example pages, evaluated.\<close>

lemma oxford_parts:
  "location_parts (str ''Oxford, England, United Kingdom'')
     = [str ''Oxford'', str ''England'', str ''United Kingdom'']"
  by (simp add: location_parts_def strip_def is_space_def str_def)

lemma oxford_rows:
  "location_row oxford_location" "\<not> location_row oxford_website"
  "td oxford_location = Some (str ''Oxford, England, United Kingdom'')"
  by (simp_all add: location_row_def oxford_location_def oxford_website_def strip_def
      is_space_def lower_def lower_cp_def str_def)

lemma oxford_fetch: "get_soup wiki_web oxford_wiki_url True = Some oxford_wiki"
  by (simp add: get_soup_def wiki_web_def)

lemma oxford_key:
  "contains (fst (fallbacks ! 1)) oxford_wiki_url"
  "list_all (\<lambda>e. \<not> contains (fst e) oxford_wiki_url) (take 1 fallbacks)"
  by (simp_all add: fallbacks_def oxford_wiki_url_def str_def)

text \<open>A reference page whose location has three segments.\<close>

theorem resolver_witness:
  "get_soup wiki_web oxford_wiki_url True = Some oxford_wiki
   \<and> infobox oxford_wiki = Some ([] @ oxford_location # [oxford_website])
   \<and> td oxford_location = Some (str ''Oxford, England, United Kingdom'')
   \<and> location_row oxford_location
   \<and> list_all (\<lambda>r. \<not> location_row r) [oxford_website]
   \<and> 2 \<le> length (location_parts (str ''Oxford, England, United Kingdom''))
   \<and> scan_page oxford_wiki ''City'' = Some (str ''Oxford'')
   \<and> scan_page oxford_wiki ''Country'' = Some (str ''United Kingdom'')
   \<and> fetch_wiki_university_info wiki_web oxford_wiki_url ''Country''
       = Some (str ''United Kingdom'')
   \<and> 1 < length fallbacks
   \<and> contains (fst (fallbacks ! 1)) oxford_wiki_url
   \<and> list_all (\<lambda>e. \<not> contains (fst e) oxford_wiki_url) (take 1 fallbacks)
   \<and> fallback_loop fallbacks oxford_wiki_url (scan_page oxford_wiki)
       = (scan_page oxford_wiki)(''Country'' \<mapsto> str ''United Kingdom'', ''City'' \<mapsto> str ''Oxford'')"
proof -
  note t = resolver_location_and_fallback [OF oxford_fetch]
  have box: "infobox oxford_wiki = Some ([] @ oxford_location # [oxford_website])"
    by (simp add: oxford_wiki_def blank_page_def)
  have rest: "list_all (\<lambda>r. \<not> location_row r) [oxford_website]"
    by (simp add: oxford_rows)
  have two: "2 \<le> length (location_parts (str ''Oxford, England, United Kingdom''))"
    by (simp add: oxford_parts)
  have loc: "scan_page oxford_wiki ''City''
        = Some (hd (location_parts (str ''Oxford, England, United Kingdom'')))
      \<and> (2 \<le> length (location_parts (str ''Oxford, England, United Kingdom'')) \<longrightarrow>
           scan_page oxford_wiki ''Country''
             = Some (last (location_parts (str ''Oxford, England, United Kingdom''))))"
    using t [THEN conjunct1, THEN spec, THEN spec, THEN spec, THEN spec,
        of "[]" oxford_location "[oxford_website]" "str ''Oxford, England, United Kingdom''"]
      box oxford_rows rest by simp
  have city: "scan_page oxford_wiki ''City'' = Some (str ''Oxford'')"
    using loc by (simp add: oxford_parts)
  have country: "scan_page oxford_wiki ''Country'' = Some (str ''United Kingdom'')"
    using loc two by (simp add: oxford_parts)
  have ne: "str ''United Kingdom'' \<noteq> NA"
    by (simp add: str_def NA_def)
  have fetch: "fetch_wiki_university_info wiki_web oxford_wiki_url ''Country''
       = Some (str ''United Kingdom'')"
    using t [THEN conjunct2, THEN conjunct1] country ne by simp
  have len: "1 < length fallbacks"
    by (simp add: fallbacks_def)
  have fb: "fallback_loop fallbacks oxford_wiki_url (scan_page oxford_wiki)
       = (scan_page oxford_wiki)(''Country'' \<mapsto> fst (snd (fallbacks ! 1)),
                                  ''City'' \<mapsto> snd (snd (fallbacks ! 1)))"
    using t [THEN conjunct2, THEN conjunct2, THEN conjunct2, THEN spec, of 1] len oxford_key
    by simp
  have e: "fst (snd (fallbacks ! 1)) = str ''United Kingdom''"
    "snd (snd (fallbacks ! 1)) = str ''Oxford''"
    by (simp_all add: fallbacks_def)
  show ?thesis
    using oxford_fetch box oxford_rows rest two city country fetch len oxford_key fb
    by (simp only: e simp_thms)
qed

text \<open>
  A location of one segment sets City only: Country stays the sentinel, and no key of
  the fallback table occurs in the URL.
\<close>

theorem single_segment_location_counterexample:
  "sorbonne_wiki_url = str ''https://en.wikipedia.org/wiki/Sorbonne_University''
   \<and> infobox sorbonne_wiki
       = Some [\<lparr>th = Some (str ''Location''), td = Some (str ''Paris''), td_href = None\<rparr>]
   \<and> get_soup wiki_web sorbonne_wiki_url True = Some sorbonne_wiki
   \<and> location_parts (str ''Paris'') = [str ''Paris'']
   \<and> fetch_wiki_university_info wiki_web sorbonne_wiki_url ''City'' = Some (str ''Paris'')
   \<and> fetch_wiki_university_info wiki_web sorbonne_wiki_url ''Country'' = Some NA
   \<and> NA \<noteq> str ''Paris''"
proof -
  have parts: "location_parts (str ''Paris'') = [str ''Paris'']"
    by (simp add: location_parts_def strip_def is_space_def str_def)
  have url: "sorbonne_wiki_url \<noteq> oxford_wiki_url"
    by (simp add: sorbonne_wiki_url_def oxford_wiki_url_def str_def)
  have fetch: "get_soup wiki_web sorbonne_wiki_url True = Some sorbonne_wiki"
    by (simp add: get_soup_def wiki_web_def url)
  have box: "infobox sorbonne_wiki
       = Some [\<lparr>th = Some (str ''Location''), td = Some (str ''Paris''), td_href = None\<rparr>]"
    by (simp add: sorbonne_wiki_def sorbonne_location_def blank_page_def)
  have header: "contains (str ''location'') (lower (strip (str ''Location'')))"
    "\<not> contains (str ''website'') (lower (strip (str ''Location'')))"
    by (simp_all add: strip_def is_space_def lower_def lower_cp_def str_def)
  have scan: "scan_page sorbonne_wiki
      = [''University Name'' \<mapsto> NA, ''Country'' \<mapsto> NA, ''City'' \<mapsto> NA, ''Website'' \<mapsto> NA,
         ''University Name'' \<mapsto> strip (str ''Sorbonne University''), ''City'' \<mapsto> str ''Paris'']"
    by (simp add: scan_page_def sorbonne_wiki_def sorbonne_location_def blank_page_def
        scan_row_def header parts Let_def)
  have nokey: "list_all (\<lambda>e. \<not> contains (fst e) sorbonne_wiki_url) fallbacks"
    by (simp add: fallbacks_def sorbonne_wiki_url_def str_def)
  have res: "fetch_wiki_university_info wiki_web sorbonne_wiki_url = scan_page sorbonne_wiki"
    by (simp add: fetch_wiki_university_info_def fetch apply_fallbacks_def
        fallback_loop_none [OF nokey])
  have ne: "NA \<noteq> str ''Paris''"
    by (simp add: NA_def str_def)
  have c1: "fetch_wiki_university_info wiki_web sorbonne_wiki_url ''City'' = Some (str ''Paris'')"
    unfolding res scan by simp
  have c2: "fetch_wiki_university_info wiki_web sorbonne_wiki_url ''Country'' = Some NA"
    unfolding res scan by simp
  show ?thesis
    using parts fetch box c1 c2 ne by (simp only: sorbonne_wiki_url_def simp_thms)
qed

end
